theory Spec2Isabelle
  imports Main "HOL-Library.Sublist"
begin

section \<open>JavaScript values used by the routes\<close>

text \<open>
  A JavaScript string is modelled by the list of its code units, for code units below
  256 (so \<open>length\<close>, \<open>take\<close> and \<open>prefix\<close> count what \<open>.length\<close>, \<open>.substring\<close> and
  \<open>.startsWith\<close> count). The routes contain one literal with a code unit beyond that
  range, the arrow U+2192 of the API-key hint; it is written as its three UTF-8 bytes.
\<close>

definition toLowerCaseChar :: "char \<Rightarrow> char" where
  "toLowerCaseChar c =
     (let n = (of_char c :: nat)
      in if (65 \<le> n \<and> n \<le> 90) \<or> (192 \<le> n \<and> n \<le> 222 \<and> n \<noteq> 215)
         then char_of (n + 32) else c)"

definition toLowerCase :: "string \<Rightarrow> string" where
  "toLowerCase s = map toLowerCaseChar s"

text \<open>White space and line terminators of ECMAScript among the code units below 256:
  TAB, LF, VT, FF, CR, SP and NBSP.\<close>

definition isWhiteSpace :: "char \<Rightarrow> bool" where
  "isWhiteSpace c = ((of_char c :: nat) \<in> {9, 10, 11, 12, 13, 32, 160})"

definition trim :: "string \<Rightarrow> string" where
  "trim s = rev (dropWhile isWhiteSpace (rev (dropWhile isWhiteSpace s)))"

definition startsWith :: "string \<Rightarrow> string \<Rightarrow> bool" where
  "startsWith s p = prefix p s"

text \<open>\<open>s.includes(t)\<close>: \<open>t\<close> occurs in \<open>s\<close> as a contiguous run.\<close>

fun includesStr :: "string \<Rightarrow> string \<Rightarrow> bool" where
  "includesStr [] t = (t = [])"
| "includesStr (c # cs) t = (prefix t (c # cs) \<or> includesStr cs t)"

text \<open>\<open>url.replace(/\/+$/, '')\<close>: the trailing slashes are removed.\<close>

definition stripTrailingSlashes :: "string \<Rightarrow> string" where
  "stripTrailingSlashes url = rev (dropWhile (\<lambda>c. c = CHR ''/'') (rev url))"

text \<open>Decimal rendering of a non-negative integer, as a template literal renders a
  rank, a count or an HTTP status.\<close>

definition digit :: "nat \<Rightarrow> char" where
  "digit d = ''0123456789'' ! d"

fun decimal :: "nat \<Rightarrow> string" where
  "decimal n = (if n < 10 then [digit n] else decimal (n div 10) @ [digit (n mod 10)])"

declare decimal.simps [simp del]

text \<open>\<open>Array.prototype.join\<close> on an array of strings.\<close>

fun join :: "string \<Rightarrow> string list \<Rightarrow> string" where
  "join sep [] = []"
| "join sep [x] = x"
| "join sep (x # y # ys) = x @ sep @ join sep (y # ys)"


section \<open>TLS verification of the search-cluster clients\<close>

text \<open>\<open>process.env\<close>: a variable is unset (\<open>None\<close>) or holds a string.\<close>

type_synonym env = "string \<rightharpoonup> string"

text \<open>\<open>process.env.X || d\<close> replaces an unset and an empty variable;
  \<open>process.env.X ?? d\<close> replaces an unset variable only.\<close>

definition orElse :: "string option \<Rightarrow> string \<Rightarrow> string" where
  "orElse v d = (case v of None \<Rightarrow> d | Some s \<Rightarrow> if s = [] then d else s)"

definition nullish :: "string option \<Rightarrow> string \<Rightarrow> string" where
  "nullish v d = (case v of None \<Rightarrow> d | Some s \<Rightarrow> s)"

text \<open>The comparison \<open>raw === 'false' || raw === '0' || raw === 'no'\<close> that all
  variants of \<open>getRejectUnauthorized\<close> share.\<close>

definition falseLike :: "string \<Rightarrow> bool" where
  "falseLike raw = (raw = ''false'' \<or> raw = ''0'' \<or> raw = ''no'')"

text \<open>\<open>getRejectUnauthorized\<close> of \<open>frontend/src/lib/opensearch.ts\<close>.\<close>

definition getRejectUnauthorized :: "env \<Rightarrow> bool" where
  "getRejectUnauthorized e =
     (let raw = toLowerCase (nullish (e ''OPENSEARCH_SSL_REJECT_UNAUTHORIZED'') ''true'')
      in raw \<noteq> ''false'' \<and> raw \<noteq> ''0'' \<and> raw \<noteq> ''no'')"

text \<open>\<open>getRejectUnauthorized\<close> of \<open>frontend/scripts/create-opensearch-index.js\<close>.\<close>

definition getRejectUnauthorized_script :: "env \<Rightarrow> bool" where
  "getRejectUnauthorized_script e =
     (let sslVerify = toLowerCase (orElse (e ''OPENSEARCH_SSL_VERIFY'') '''')
      in if sslVerify = ''false'' \<or> sslVerify = ''0'' \<or> sslVerify = ''no'' then False
         else
           let raw = toLowerCase (orElse (e ''OPENSEARCH_SSL_REJECT_UNAUTHORIZED'') '''')
           in if raw = ''false'' \<or> raw = ''0'' \<or> raw = ''no'' then False
              else if e ''NODE_ENV'' \<noteq> Some ''production''
                      \<and> startsWith (toLowerCase (trim (orElse (e ''OPENSEARCH_URL'') ''''))) ''https://''
                   then False
                   else True)"

text \<open>\<open>getRejectUnauthorized\<close> of the second client module (the TypeScript module that
  follows the index script in the sources): the same tests with \<open>??\<close> for \<open>||\<close>.\<close>

definition getRejectUnauthorized_client :: "env \<Rightarrow> bool" where
  "getRejectUnauthorized_client e =
     (let sslVerify = toLowerCase (nullish (e ''OPENSEARCH_SSL_VERIFY'') '''')
      in if sslVerify = ''false'' \<or> sslVerify = ''0'' \<or> sslVerify = ''no'' then False
         else
           let raw = toLowerCase (nullish (e ''OPENSEARCH_SSL_REJECT_UNAUTHORIZED'') '''')
           in if raw = ''false'' \<or> raw = ''0'' \<or> raw = ''no'' then False
              else if e ''NODE_ENV'' \<noteq> Some ''production''
                      \<and> startsWith (toLowerCase (trim (nullish (e ''OPENSEARCH_URL'') ''''))) ''https://''
                   then False
                   else True)"

text \<open>The precedence of the specification, in its words: an explicit skip-verification
  flag, then an explicit reject-unauthorized flag, then the default of the environment.\<close>

definition tlsVerify_spec :: "env \<Rightarrow> bool" where
  "tlsVerify_spec e =
     (if falseLike (toLowerCase (orElse (e ''OPENSEARCH_SSL_VERIFY'') '''')) then False
      else if falseLike (toLowerCase (orElse (e ''OPENSEARCH_SSL_REJECT_UNAUTHORIZED'') '''')) then False
      else if e ''NODE_ENV'' \<noteq> Some ''production''
              \<and> startsWith (toLowerCase (trim (orElse (e ''OPENSEARCH_URL'') ''''))) ''https://''
           then False
      else True)"

definition env_skip_only :: env where
  "env_skip_only =
     [''OPENSEARCH_SSL_VERIFY'' \<mapsto> ''false'',
      ''NODE_ENV'' \<mapsto> ''production'',
      ''OPENSEARCH_URL'' \<mapsto> ''https://search.example.com:9200'']"


section \<open>JSON values and the exceptions of the routes\<close>

text \<open>
  A parsed JSON value. Numbers are the integers; a payload with a fractional number is
  outside the model. An object is the list of its entries, read with \<open>map_of\<close>.
  A JavaScript value that may be \<open>undefined\<close> is a \<open>json option\<close>.
\<close>

datatype json =
    JNull
  | JBool bool
  | JNumber int
  | JString string
  | JArray "json list"
  | JObject "(string \<times> json) list"

text \<open>What a route can throw: an \<open>Error\<close> of a collaborator with its message, a
  \<open>TypeError\<close> or a \<open>RangeError\<close> of the engine with its message (the wording is the
  engine's), or a thrown value that is not an \<open>Error\<close>.\<close>

datatype exn = Err string | TypeErr string | RangeErr string | Thrown

fun truthy :: "json \<Rightarrow> bool" where
  "truthy JNull = False"
| "truthy (JBool b) = b"
| "truthy (JNumber n) = (n \<noteq> 0)"
| "truthy (JString s) = (s \<noteq> [])"
| "truthy (JArray xs) = True"
| "truthy (JObject kvs) = True"

text \<open>\<open>pick v\<close> is \<open>v\<close> when the test \<open>if (v)\<close> succeeds, and nothing otherwise.\<close>

definition pick :: "json option \<Rightarrow> json option" where
  "pick v = (case v of None \<Rightarrow> None | Some x \<Rightarrow> if truthy x then Some x else None)"

text \<open>\<open>a || b\<close> on values.\<close>

definition orValue :: "json option \<Rightarrow> json option \<Rightarrow> json option" where
  "orValue a b = (case pick a of Some x \<Rightarrow> Some x | None \<Rightarrow> b)"

text \<open>\<open>v.k\<close> for the field names the routes read (none of them is a property of a
  string, an array, a number or a boolean): a \<open>TypeError\<close> on \<open>null\<close>, the entry of an
  object, \<open>undefined\<close> on everything else.\<close>

fun getProp :: "json \<Rightarrow> string \<Rightarrow> exn + json option" where
  "getProp JNull k =
     Inl (TypeErr (''Cannot read properties of null (reading '' @ [CHR 0x27] @ k @ [CHR 0x27] @ '')''))"
| "getProp (JObject kvs) k = Inr (map_of kvs k)"
| "getProp v k = Inr None"

text \<open>\<open>v?.k\<close>: \<open>undefined\<close> when \<open>v\<close> is \<open>undefined\<close> or \<open>null\<close>; it never throws.\<close>

fun optChain :: "json option \<Rightarrow> string \<Rightarrow> json option" where
  "optChain (Some (JObject kvs)) k = map_of kvs k"
| "optChain v k = None"

text \<open>The elements a \<open>for ... of\<close> loop visits: those of an array, the characters of a
  string; any other value is not iterable.\<close>

fun iterate :: "json \<Rightarrow> exn + json list" where
  "iterate (JArray xs) = Inr xs"
| "iterate (JString s) = Inr (map (\<lambda>c. JString [c]) s)"
| "iterate v = Inl (TypeErr ''value is not iterable'')"

text \<open>The results of a list of conversions, up to the first that throws.\<close>

fun allOrThrow :: "(exn + 'a) list \<Rightarrow> exn + 'a list" where
  "allOrThrow [] = Inr []"
| "allOrThrow (Inl ex # rest) = Inl ex"
| "allOrThrow (Inr x # rest) = (case allOrThrow rest of Inl ex \<Rightarrow> Inl ex | Inr xs \<Rightarrow> Inr (x # xs))"

text \<open>
  \<open>String(v)\<close>, as a template literal applies it. An integer up to \<open>2\<^sup>5\<^sup>3\<close> in absolute
  value is a double and prints with all its digits; beyond that the number is the
  nearest double and its string is the engine's, \<open>numberToString\<close>. An object parsed from
  JSON prints as \<open>[object Object]\<close> through \<open>Object.prototype.toString\<close>, unless it
  has an entry \<open>toString\<close> of its own: that entry is not callable, \<open>valueOf\<close> does not
  return a primitive either, and the conversion throws a \<open>TypeError\<close>. An array prints
  its elements joined by commas, \<open>null\<close> as the empty string.
\<close>

fun jsToString :: "(int \<Rightarrow> string) \<Rightarrow> json \<Rightarrow> exn + string" where
  "jsToString numberToString JNull = Inr ''null''"
| "jsToString numberToString (JBool b) = Inr (if b then ''true'' else ''false'')"
| "jsToString numberToString (JNumber n) =
     Inr (if \<bar>n\<bar> \<le> 9007199254740992
          then (if n < 0 then ''-'' @ decimal (nat (- n)) else decimal (nat n))
          else numberToString n)"
| "jsToString numberToString (JString s) = Inr s"
| "jsToString numberToString (JArray xs) =
     (case allOrThrow
             (map (\<lambda>x. if x = JNull then Inr [] else jsToString numberToString x) xs) of
        Inl ex \<Rightarrow> Inl ex
      | Inr parts \<Rightarrow> Inr (join '','' parts))"
| "jsToString numberToString (JObject kvs) =
     (if map_of kvs ''toString'' \<noteq> None
      then Inl (TypeErr ''Cannot convert object to primitive value'')
      else Inr ''[object Object]'')"

text \<open>The handler of both routes' outer \<open>catch\<close>:
  \<open>error instanceof Error ? error.message : 'Internal server error'\<close>.\<close>

fun errorMessage :: "exn \<Rightarrow> string" where
  "errorMessage (Err m) = m"
| "errorMessage (TypeErr m) = m"
| "errorMessage (RangeErr m) = m"
| "errorMessage Thrown = ''Internal server error''"

text \<open>A response of a route, with status 200 when none is given.\<close>

record 'b response =
  status :: nat
  body :: "(string \<times> 'b) list"

definition errorResponse :: "nat \<Rightarrow> string \<Rightarrow> json response" where
  "errorResponse st msg = \<lparr>status = st, body = [(''error'', JString msg)]\<rparr>"

text \<open>
  \<open>NextResponse.json(body, { status })\<close> builds a \<open>Response\<close> with a body: it throws a
  \<open>RangeError\<close> for a status outside 200..599 and a \<open>TypeError\<close> for a null-body status
  (101, 103, 204, 205, 304). The statuses the routes write as constants (200, 400, 500,
  502) are accepted, so only the call with the status of the orchestrator goes through
  \<open>NextResponse_json\<close>.
\<close>

definition nullBodyStatus :: "nat \<Rightarrow> bool" where
  "nullBodyStatus st = (st \<in> {101, 103, 204, 205, 304})"

definition statusError :: "nat \<Rightarrow> exn option" where
  "statusError st =
     (if st < 200 \<or> 599 < st
      then Some (RangeErr ''init[status] must be in the range of 200 to 599, inclusive.'')
      else if nullBodyStatus st
      then Some (TypeErr (''Response constructor: Invalid response status code '' @ decimal st))
      else None)"

definition NextResponse_json :: "nat \<Rightarrow> (string \<times> json) list \<Rightarrow> exn + json response" where
  "NextResponse_json st b =
     (case statusError st of
        Some ex \<Rightarrow> Inl ex
      | None \<Rightarrow> Inr \<lparr>status = st, body = b\<rparr>)"


section \<open>The delegate route (\<open>api/chat/route.ts\<close>)\<close>

text \<open>The module constants, read from the environment.\<close>

definition LANGFLOW_URL :: "env \<Rightarrow> string" where
  "LANGFLOW_URL e = stripTrailingSlashes (orElse (e ''LANGFLOW_URL'') ''http://localhost:7860'')"

definition LANGFLOW_FLOW_ID :: "env \<Rightarrow> string" where
  "LANGFLOW_FLOW_ID e = orElse (e ''LANGFLOW_FLOW_ID'') ''6f48da32-743b-49a7-bebf-0e302d172314''"

definition LANGFLOW_API_KEY :: "env \<Rightarrow> string" where
  "LANGFLOW_API_KEY e = orElse (e ''LANGFLOW_API_KEY'') []"

definition INDEX_NAME :: "env \<Rightarrow> string" where
  "INDEX_NAME e = orElse (e ''INDEX_NAME'') ''rag_demo''"

definition OPENAI_EMBEDDING_MODEL :: "env \<Rightarrow> string" where
  "OPENAI_EMBEDDING_MODEL e = orElse (e ''OPENAI_EMBEDDING_MODEL'') ''text-embedding-3-small''"

text \<open>The request sent to the orchestrator and what \<open>fetch\<close> resolves to.\<close>

record langflow_request =
  url :: string
  headers :: "(string \<times> string) list"
  payload :: string

record langflow_response =
  upstream_status :: nat
  upstream_text :: "exn + string"

definition ok :: "nat \<Rightarrow> bool" where
  "ok st = (200 \<le> st \<and> st \<le> 299)"

text \<open>
  What the route gets from outside: the parsed request body, the generated UUID, the
  orchestrator behind \<open>fetch\<close>, and the built-in \<open>JSON.parse\<close> (\<open>None\<close> is its
  \<open>SyntaxError\<close>), \<open>JSON.stringify\<close>, the indented \<open>JSON.stringify\<close> of the
  pipeline description (of the embedding model and the message) and the string of a
  number beyond \<open>2\<^sup>5\<^sup>3\<close>.
\<close>

record chat_world =
  request_json :: "exn + json"
  uuidv4 :: string
  fetch :: "langflow_request \<Rightarrow> exn + langflow_response"
  JSON_parse :: "string \<Rightarrow> json option"
  JSON_stringify :: "json \<Rightarrow> string"
  hybridQueryText :: "string \<Rightarrow> json \<Rightarrow> string"
  Number_toString :: "int \<Rightarrow> string"

text \<open>Lines 52 to 70: the test for an HTML page and the response to it.\<close>

definition isHtml :: "string \<Rightarrow> bool" where
  "isHtml responseText =
     (let trimmed = trim responseText
      in startsWith (toLowerCase trimmed) ''<!doctype'' \<or> startsWith (toLowerCase trimmed) ''<html'')"

definition arrow :: string where
  "arrow = [CHR 0xE2, CHR 0x86, CHR 0x92]"

definition missingKeyHint :: string where
  "missingKeyHint = '' Langflow 1.5+ requires an API key: add LANGFLOW_API_KEY to frontend/.env.local (create one in Langflow: Settings '' @ arrow @ '' API Keys). Or run Langflow with LANGFLOW_SKIP_AUTH_AUTO_LOGIN=true for local dev without auth.''"

definition invalidKeyHint :: string where
  "invalidKeyHint = '' Check that LANGFLOW_API_KEY is valid and LANGFLOW_FLOW_ID matches your flow in the Langflow UI.''"

definition authHint :: "env \<Rightarrow> string" where
  "authHint e = (if LANGFLOW_API_KEY e = [] then missingKeyHint else invalidKeyHint)"

definition htmlMessage :: "string \<Rightarrow> string" where
  "htmlMessage hint =
     ''Langflow returned a page instead of JSON.'' @ hint
     @ '' Also ensure LANGFLOW_URL is the base URL (e.g. http://localhost:7860) and the flow is built and running.''"

definition htmlResponse :: "env \<Rightarrow> json response" where
  "htmlResponse e = errorResponse 502 (htmlMessage (authHint e))"

text \<open>Lines 72 to 89: a status outside 200..299. Inside the \<open>try\<close>, a body that does
  not parse, a \<open>TypeError\<close> while reading the parsed body or converting the message to
  a string, and a status that \<open>NextResponse.json\<close> refuses all end in the inner
  \<open>catch\<close>, which builds the fallback response with the same status; what that call
  throws leaves the route's \<open>try\<close>.\<close>

definition upstreamErrorResponse :: "chat_world \<Rightarrow> nat \<Rightarrow> string \<Rightarrow> exn + json response" where
  "upstreamErrorResponse w st responseText =
     (let fallback = NextResponse_json st [(''error'', JString (''Langflow API error: '' @ decimal st))]
      in case JSON_parse w responseText of
           None \<Rightarrow> fallback
         | Some errorData \<Rightarrow>
             (case getProp errorData ''detail'' of
                Inl ex \<Rightarrow> fallback
              | Inr detail \<Rightarrow>
                  (case orValue detail
                          (orValue (optChain (Some errorData) ''message'')
                             (orValue (optChain (Some errorData) ''error'')
                                (Some (JString ''Unknown error'')))) of
                     None \<Rightarrow> fallback
                   | Some errorMsg \<Rightarrow>
                       (case jsToString (Number_toString w) errorMsg of
                          Inl ex \<Rightarrow> fallback
                        | Inr msg \<Rightarrow>
                            (case NextResponse_json st
                                    [(''error'', JString (''Langflow error: '' @ msg))] of
                               Inl ex \<Rightarrow> fallback
                             | Inr r \<Rightarrow> Inr r)))))"

text \<open>Lines 110 to 118: one inner output. The first of \<open>results.message.text\<close>,
  \<open>results.text\<close> and \<open>message.text\<close> that passes its test replaces the answer.\<close>

definition innerStep :: "json \<Rightarrow> json \<Rightarrow> exn + json" where
  "innerStep answer innerOutput =
     (case getProp innerOutput ''results'' of
        Inl ex \<Rightarrow> Inl ex
      | Inr results \<Rightarrow>
          (case pick (optChain (optChain results ''message'') ''text'') of
             Some t \<Rightarrow> Inr t
           | None \<Rightarrow>
               (case pick (optChain results ''text'') of
                  Some t \<Rightarrow> Inr t
                | None \<Rightarrow>
                    (case getProp innerOutput ''message'' of
                       Inl ex \<Rightarrow> Inl ex
                     | Inr msg \<Rightarrow>
                         (case pick (optChain msg ''text'') of
                            Some t \<Rightarrow> Inr t
                          | None \<Rightarrow> Inr answer)))))"

fun innerLoop :: "json \<Rightarrow> json list \<Rightarrow> exn + json" where
  "innerLoop answer [] = Inr answer"
| "innerLoop answer (innerOutput # rest) =
     (case innerStep answer innerOutput of
        Inl ex \<Rightarrow> Inl ex
      | Inr answer' \<Rightarrow> innerLoop answer' rest)"

text \<open>Lines 108 to 120: the loop over \<open>langflowData.outputs\<close>.\<close>

fun outerLoop :: "json \<Rightarrow> json list \<Rightarrow> exn + json" where
  "outerLoop answer [] = Inr answer"
| "outerLoop answer (output # rest) =
     (case getProp output ''outputs'' of
        Inl ex \<Rightarrow> Inl ex
      | Inr inner \<Rightarrow>
          (case pick inner of
             None \<Rightarrow> outerLoop answer rest
           | Some innerOutputs \<Rightarrow>
               (case iterate innerOutputs of
                  Inl ex \<Rightarrow> Inl ex
                | Inr ios \<Rightarrow>
                    (case innerLoop answer ios of
                       Inl ex \<Rightarrow> Inl ex
                     | Inr answer' \<Rightarrow> outerLoop answer' rest))))"

text \<open>Lines 104 to 127: the \<open>if\<close> / \<open>else if\<close> chain over the three shapes. The
  branch is chosen by the first of \<open>outputs\<close>, \<open>result\<close> and \<open>text\<close> that passes its
  test; \<open>answer\<close> starts as the empty string.\<close>

definition extractAnswer :: "chat_world \<Rightarrow> json \<Rightarrow> exn + json" where
  "extractAnswer w langflowData =
     (case getProp langflowData ''outputs'' of
        Inl ex \<Rightarrow> Inl ex
      | Inr outputsField \<Rightarrow>
          (case pick outputsField of
             Some outputs \<Rightarrow>
               (case iterate outputs of
                  Inl ex \<Rightarrow> Inl ex
                | Inr outs \<Rightarrow> outerLoop (JString []) outs)
           | None \<Rightarrow>
               (case pick (optChain (Some langflowData) ''result'') of
                  Some result \<Rightarrow>
                    (case result of
                       JString s \<Rightarrow> Inr (JString s)
                     | _ \<Rightarrow>
                         (case pick (optChain (Some result) ''text'') of
                            Some t \<Rightarrow> Inr t
                          | None \<Rightarrow> Inr (JString (JSON_stringify w result))))
                | None \<Rightarrow>
                    (case pick (optChain (Some langflowData) ''text'') of
                       Some t \<Rightarrow> Inr t
                     | None \<Rightarrow> Inr (JString [])))))"

text \<open>Lines 129 to 131.\<close>

definition normalizeAnswer :: "chat_world \<Rightarrow> json \<Rightarrow> exn + json" where
  "normalizeAnswer w langflowData =
     (case extractAnswer w langflowData of
        Inl ex \<Rightarrow> Inl ex
      | Inr answer \<Rightarrow>
          Inr (if \<not> truthy answer then JString ''No response received from the RAG system.''
               else answer))"

text \<open>Lines 159 to 173: the search information and the response to a normalized answer.\<close>

definition chatSearchInfo :: "env \<Rightarrow> chat_world \<Rightarrow> json \<Rightarrow> json" where
  "chatSearchInfo e w message =
     JObject
       [(''type'', JString ''Hybrid Search (BM25 + Vector)''),
        (''orchestrator'', JString ''Langflow''),
        (''index'', JString (INDEX_NAME e)),
        (''note'', JString ''Retrieved documents handled by Langflow internally''),
        (''query'', JString (hybridQueryText w (OPENAI_EMBEDDING_MODEL e) message))]"

definition sessionId :: "chat_world \<Rightarrow> json option \<Rightarrow> json" where
  "sessionId w session_id = (case pick session_id of Some s \<Rightarrow> s | None \<Rightarrow> JString (uuidv4 w))"

definition langflowPayload :: "chat_world \<Rightarrow> json \<Rightarrow> json option \<Rightarrow> json" where
  "langflowPayload w message session_id =
     JObject
       [(''output_type'', JString ''chat''),
        (''input_type'', JString ''chat''),
        (''input_value'', message),
        (''session_id'', sessionId w session_id)]"

definition langflowHeaders :: "env \<Rightarrow> (string \<times> string) list" where
  "langflowHeaders e =
     (''Content-Type'', ''application/json'')
     # (if LANGFLOW_API_KEY e \<noteq> [] then [(''x-api-key'', LANGFLOW_API_KEY e)] else [])"

definition langflowRequest :: "env \<Rightarrow> chat_world \<Rightarrow> json \<Rightarrow> json option \<Rightarrow> langflow_request" where
  "langflowRequest e w message session_id =
     \<lparr>url = LANGFLOW_URL e @ ''/api/v1/run/'' @ LANGFLOW_FLOW_ID e,
      headers = langflowHeaders e,
      payload = JSON_stringify w (langflowPayload w message session_id)\<rparr>"

definition answerResponse :: "env \<Rightarrow> chat_world \<Rightarrow> json \<Rightarrow> json option \<Rightarrow> json \<Rightarrow> json response" where
  "answerResponse e w message session_id answer =
     \<lparr>status = 200,
      body =
        [(''answer'', answer),
         (''session_id'', sessionId w session_id),
         (''search_type'', JString ''hybrid''),
         (''search_info'', chatSearchInfo e w message)]\<rparr>"

text \<open>Lines 49 to 173: the route once \<open>fetch\<close> has resolved.\<close>

definition handleLangflowResponse ::
  "env \<Rightarrow> chat_world \<Rightarrow> json \<Rightarrow> json option \<Rightarrow> langflow_response \<Rightarrow> exn + json response" where
  "handleLangflowResponse e w message session_id langflowResponse =
     (case upstream_text langflowResponse of
        Inl ex \<Rightarrow> Inl ex
      | Inr responseText \<Rightarrow>
          if isHtml responseText then Inr (htmlResponse e)
          else if \<not> ok (upstream_status langflowResponse)
          then upstreamErrorResponse w (upstream_status langflowResponse) responseText
          else
            (case JSON_parse w responseText of
               None \<Rightarrow> Inr (errorResponse 502 ''Invalid JSON response from Langflow'')
             | Some langflowData \<Rightarrow>
                 (case normalizeAnswer w langflowData of
                    Inl ex \<Rightarrow> Inl ex
                  | Inr answer \<Rightarrow> Inr (answerResponse e w message session_id answer))))"

text \<open>Lines 11 to 47: the body of the \<open>try\<close> up to \<open>fetch\<close>. Destructuring the body
  throws on \<open>null\<close>.\<close>

definition chat_try :: "env \<Rightarrow> chat_world \<Rightarrow> exn + json response" where
  "chat_try e w =
     (case request_json w of
        Inl ex \<Rightarrow> Inl ex
      | Inr reqBody \<Rightarrow>
          (case getProp reqBody ''message'' of
             Inl ex \<Rightarrow> Inl ex
           | Inr messageField \<Rightarrow>
               (case pick messageField of
                  None \<Rightarrow> Inr (errorResponse 400 ''Message is required'')
                | Some message \<Rightarrow>
                    (let session_id = optChain (Some reqBody) ''session_id''
                     in case fetch w (langflowRequest e w message session_id) of
                          Inl ex \<Rightarrow> Inl ex
                        | Inr langflowResponse \<Rightarrow>
                            handleLangflowResponse e w message session_id langflowResponse))))"

text \<open>The delegate route \<open>POST\<close>, with its outer \<open>catch\<close>.\<close>

definition chat_POST :: "env \<Rightarrow> chat_world \<Rightarrow> json response" where
  "chat_POST e w =
     (case chat_try e w of
        Inl ex \<Rightarrow> errorResponse 500 (errorMessage ex)
      | Inr r \<Rightarrow> r)"


section \<open>The delegate route: what the claims speak of\<close>

text \<open>The text an inner output carries: \<open>results.message.text\<close> before
  \<open>results.text\<close> before \<open>message.text\<close>, each counted when it passes the test
  \<open>if (...)\<close>; \<open>None\<close> when the inner output carries no recognized text.\<close>

definition recognized :: "json \<Rightarrow> json option" where
  "recognized innerOutput =
     (case pick (optChain (optChain (optChain (Some innerOutput) ''results'') ''message'') ''text'') of
        Some t \<Rightarrow> Some t
      | None \<Rightarrow>
          (case pick (optChain (optChain (Some innerOutput) ''results'') ''text'') of
             Some t \<Rightarrow> Some t
           | None \<Rightarrow> pick (optChain (optChain (Some innerOutput) ''message'') ''text'')))"

text \<open>The inner outputs of one entry of \<open>outputs\<close>, and the text of the last inner
  output of a list that carries one.\<close>

definition innerOutputsOf :: "json \<Rightarrow> json list" where
  "innerOutputsOf output =
     (case pick (optChain (Some output) ''outputs'') of
        None \<Rightarrow> []
      | Some v \<Rightarrow> (case iterate v of Inl ex \<Rightarrow> [] | Inr ios \<Rightarrow> ios))"

definition lastRecognized :: "json list \<Rightarrow> json option" where
  "lastRecognized ios =
     (case List.map_filter recognized ios of [] \<Rightarrow> None | t # ts \<Rightarrow> Some (last (t # ts)))"

text \<open>The entries the loops can read without a \<open>TypeError\<close>: no entry of
  \<open>outputs\<close> is \<open>null\<close>, and its own \<open>outputs\<close>, when it passes the test, is iterable
  and has no \<open>null\<close> entry.\<close>

definition scannable :: "json list \<Rightarrow> bool" where
  "scannable outs =
     (\<forall>output \<in> set outs.
        output \<noteq> JNull
        \<and> (case pick (optChain (Some output) ''outputs'') of
             None \<Rightarrow> True
           | Some v \<Rightarrow> (case iterate v of Inl ex \<Rightarrow> False | Inr ios \<Rightarrow> JNull \<notin> set ios)))"

text \<open>The three shapes of the specification, each with the text it yields, and the
  normalization in the specification's words: the shapes are tried in order until one
  yields a text, and the literal is the answer when none does.\<close>

definition noAnswer :: json where
  "noAnswer = JString ''No response received from the RAG system.''"

definition shape1 :: "json \<Rightarrow> json option" where
  "shape1 d =
     (case pick (optChain (Some d) ''outputs'') of
        None \<Rightarrow> None
      | Some os \<Rightarrow>
          (case iterate os of
             Inl ex \<Rightarrow> None
           | Inr outs \<Rightarrow> lastRecognized (concat (map innerOutputsOf outs))))"

definition shape2 :: "chat_world \<Rightarrow> json \<Rightarrow> json option" where
  "shape2 w d =
     (case pick (optChain (Some d) ''result'') of
        None \<Rightarrow> None
      | Some (JString s) \<Rightarrow> Some (JString s)
      | Some r \<Rightarrow>
          (case pick (optChain (Some r) ''text'') of
             Some t \<Rightarrow> Some t
           | None \<Rightarrow> pick (Some (JString (JSON_stringify w r)))))"

definition shape3 :: "json \<Rightarrow> json option" where
  "shape3 d = pick (optChain (Some d) ''text'')"

definition normalize_spec :: "chat_world \<Rightarrow> json \<Rightarrow> json" where
  "normalize_spec w d =
     (case shape1 d of
        Some t \<Rightarrow> t
      | None \<Rightarrow>
          (case shape2 w d of
             Some t \<Rightarrow> t
           | None \<Rightarrow> (case shape3 d of Some t \<Rightarrow> t | None \<Rightarrow> noAnswer)))"

text \<open>The normalization with the shape chosen by the first of the top-level fields
  \<open>outputs\<close>, \<open>result\<close> and \<open>text\<close> that passes its test; only that shape is read.\<close>

definition normalize_byField :: "chat_world \<Rightarrow> json \<Rightarrow> json" where
  "normalize_byField w d =
     (if pick (optChain (Some d) ''outputs'') \<noteq> None
      then (case shape1 d of Some t \<Rightarrow> t | None \<Rightarrow> noAnswer)
      else if pick (optChain (Some d) ''result'') \<noteq> None
      then (case shape2 w d of Some t \<Rightarrow> t | None \<Rightarrow> noAnswer)
      else (case shape3 d of Some t \<Rightarrow> t | None \<Rightarrow> noAnswer))"

text \<open>A parsed body the extraction reads without a \<open>TypeError\<close>: it is not
  \<open>null\<close>, and its \<open>outputs\<close>, when it passes the test, can be scanned.\<close>

definition scans :: "json \<Rightarrow> bool" where
  "scans d =
     (d \<noteq> JNull
      \<and> (case pick (optChain (Some d) ''outputs'') of
           None \<Rightarrow> True
         | Some os \<Rightarrow> (case iterate os of Inl ex \<Rightarrow> False | Inr outs \<Rightarrow> scannable outs)))"

text \<open>The request carries a message and \<open>fetch\<close> resolved to the response \<open>r\<close>.\<close>

definition replied :: "env \<Rightarrow> chat_world \<Rightarrow> json \<Rightarrow> json \<Rightarrow> langflow_response \<Rightarrow> bool" where
  "replied e w reqBody message r =
     (request_json w = Inr reqBody
      \<and> getProp reqBody ''message'' = Inr (Some message)
      \<and> truthy message
      \<and> fetch w (langflowRequest e w message (optChain (Some reqBody) ''session_id'')) = Inr r)"

text \<open>The first of the fields \<open>detail\<close>, \<open>message\<close> and \<open>error\<close> of a parsed body that
  holds a value passing the test of \<open>||\<close>, and \<open>'Unknown error'\<close> when none does (a
  body that is not an object has no field).\<close>

definition errorField :: "json \<Rightarrow> json" where
  "errorField d =
     (case List.map_filter (\<lambda>k. pick (optChain (Some d) k)) [''detail'', ''message'', ''error''] of
        [] \<Rightarrow> JString ''Unknown error''
      | v # vs \<Rightarrow> v)"

text \<open>A simulated orchestrator: it answers every request with the given status and
  body, and \<open>JSON.parse\<close> is the given table. The inputs below are run against it.\<close>

definition simulated_chat :: "json \<Rightarrow> nat \<Rightarrow> string \<Rightarrow> (string \<times> json) list \<Rightarrow> chat_world" where
  "simulated_chat reqBody st responseText parsed =
     \<lparr>request_json = Inr reqBody,
      uuidv4 = ''00000000-0000-4000-8000-000000000000'',
      fetch = (\<lambda>req. Inr \<lparr>upstream_status = st, upstream_text = Inr responseText\<rparr>),
      JSON_parse = map_of parsed,
      JSON_stringify = (\<lambda>v. ''{}''),
      hybridQueryText = (\<lambda>m v. ''{}''),
      Number_toString = (\<lambda>n. ''1e+21'')\<rparr>"

definition hello :: json where
  "hello = JObject [(''message'', JString ''What is the card APR?'')]"

definition key_env :: env where
  "key_env = [''LANGFLOW_API_KEY'' \<mapsto> ''sk-demo'']"

definition page :: string where
  "page = ''  <!DOCTYPE html><html><body>Sign in</body></html>''"

definition detail_body :: string where
  \<open>detail_body = ''{"detail":"invalid key"}''\<close>

definition html401 :: string where
  "html401 = ''<html><body>401 Unauthorized</body></html>''"

definition outputs42 :: json where
  "outputs42 =
     JObject [(''outputs'', JArray [JObject [(''outputs'',
        JArray [JObject [(''results'', JObject [(''text'', JString ''42'')])]])]])]"

definition empty_outputs_with_result :: json where
  "empty_outputs_with_result = JObject [(''outputs'', JArray []), (''result'', JString ''hello'')]"

definition inner_first :: json where
  "inner_first = JObject [(''results'', JObject [(''message'', JObject [(''text'', JString ''first'')])])]"

definition inner_plain :: json where
  "inner_plain = JObject [(''note'', JString ''no text here'')]"

definition inner_second :: json where
  "inner_second =
     JObject [(''results'', JObject [(''text'', JString ''second'')]),
              (''message'', JObject [(''text'', JString ''shadowed'')])]"

definition inner_empty :: json where
  "inner_empty = JObject [(''results'', JObject [(''text'', JString [])])]"

definition output_a :: json where
  "output_a = JObject [(''outputs'', JArray [inner_first, inner_plain])]"

definition output_b :: json where
  "output_b = JObject [(''outputs'', JArray [inner_second, inner_empty])]"

definition two_outputs :: "(string \<times> json) list" where
  "two_outputs = [(''outputs'', JArray [output_a, output_b])]"

definition output_with_null :: json where
  "output_with_null = JObject [(''outputs'', JArray [inner_first, JNull])]"

definition null_after_text :: "(string \<times> json) list" where
  "null_after_text = [(''outputs'', JArray [output_with_null])]"


section \<open>The direct route (the semantic-search \<open>POST\<close>)\<close>

text \<open>
  Scores and embedding coordinates are floating-point numbers; the route only passes
  them on, so they are values of a type \<open>'f\<close> that the model does not look into.
  A hit is read at the type the route declares, \<open>OpenSearchHit\<close>.
\<close>

record 'f OpenSearchHit =
  source_text :: string
  file_path :: "string option"
  score :: 'f

text \<open>What the route writes into a response body.\<close>

datatype 'f out =
    OString string
  | ONumber int
  | OFloat 'f
  | OArray "'f out list"
  | OObject "(string \<times> 'f out) list"

definition semanticError :: "nat \<Rightarrow> string \<Rightarrow> 'f out response" where
  "semanticError st msg = \<lparr>status = st, body = [(''error'', OString msg)]\<rparr>"

text \<open>The module constants, read from the environment (\<open>INDEX_NAME\<close> and
  \<open>OPENAI_EMBEDDING_MODEL\<close> are those of the delegate route).\<close>

definition normalizeOpenSearchUrl :: "string \<Rightarrow> string" where
  "normalizeOpenSearchUrl u = stripTrailingSlashes u"

definition OPENSEARCH_URL :: "env \<Rightarrow> string" where
  "OPENSEARCH_URL e = normalizeOpenSearchUrl (orElse (e ''OPENSEARCH_URL'') [])"

definition OPENAI_API_KEY :: "env \<Rightarrow> string" where
  "OPENAI_API_KEY e = orElse (e ''OPENAI_API_KEY'') []"

definition OPENAI_LLM_MODEL :: "env \<Rightarrow> string" where
  "OPENAI_LLM_MODEL e = orElse (e ''OPENAI_LLM_MODEL'') ''gpt-4o-mini''"

definition OPENSEARCH_VECTOR_FIELD :: "env \<Rightarrow> string" where
  "OPENSEARCH_VECTOR_FIELD e = orElse (e ''OPENSEARCH_VECTOR_FIELD'') ''embeddings''"

text \<open>The requests to the collaborators and what they resolve to.\<close>

record 'f search_query =
  query_size :: int
  source_fields :: "string list"
  knn_field :: string
  query_vector :: "'f list"
  query_k :: int

record 'f search_request =
  search_url :: string
  search_headers :: "(string \<times> string) list"
  search_body :: "'f search_query"

text \<open>\<open>searchData\<close>: \<open>null\<close>, or a value whose \<open>hits?.hits\<close> is absent or a list of
  hits.\<close>

datatype 'f search_data = SearchNull | SearchData "'f OpenSearchHit list option"

record 'f search_response =
  search_status :: nat
  search_text :: "exn + string"
  search_json :: "exn + 'f search_data"

record chat_request =
  chat_model :: string
  messages :: "(string \<times> string) list"
  temperature :: string
  max_tokens :: nat

record chat_message =
  content :: "string option"

record choice =
  choice_message :: "chat_message option"

text \<open>
  What the route gets from outside: the parsed request body, the embedding provider
  (its \<open>data[i].embedding\<close>), the index behind \<open>fetch\<close>, the generation provider (its
  \<open>choices\<close>), and the built-ins \<open>Number\<close>, \<open>toFixed(4)\<close>, base64 of a \<open>Buffer\<close>,
  the indented \<open>JSON.stringify\<close> and the string of a number beyond \<open>2\<^sup>5\<^sup>3\<close>.
\<close>

record 'f semantic_world =
  request_body :: "exn + json"
  embeddings_create :: "string \<Rightarrow> json \<Rightarrow> exn + 'f list list"
  search_fetch :: "'f search_request \<Rightarrow> exn + 'f search_response"
  chat_completions_create :: "chat_request \<Rightarrow> exn + choice list"
  toNumber :: "string \<Rightarrow> int"
  toFixed4 :: "'f \<Rightarrow> string"
  base64 :: "string \<Rightarrow> string"
  stringify_indent :: "json \<Rightarrow> string"
  number_toString :: "int \<Rightarrow> string"

definition OPENSEARCH_K :: "env \<Rightarrow> 'f semantic_world \<Rightarrow> int" where
  "OPENSEARCH_K e w = toNumber w (orElse (e ''OPENSEARCH_K'') ''2'')"

text \<open>The calls a run makes to its collaborators, in order.\<close>

datatype 'f call =
    EmbeddingsCreate string json
  | Fetch "'f search_request"
  | ChatCompletionsCreate chat_request

text \<open>Lines 68 to 93: the query and the request to the index.\<close>

definition searchQuery :: "env \<Rightarrow> 'f semantic_world \<Rightarrow> 'f list \<Rightarrow> 'f search_query" where
  "searchQuery e w queryVector =
     \<lparr>query_size = OPENSEARCH_K e w,
      source_fields = [''text'', ''file_path''],
      knn_field = OPENSEARCH_VECTOR_FIELD e,
      query_vector = queryVector,
      query_k = OPENSEARCH_K e w\<rparr>"

definition searchHeaders :: "env \<Rightarrow> 'f semantic_world \<Rightarrow> (string \<times> string) list" where
  "searchHeaders e w =
     (''Content-Type'', ''application/json'')
     # (case e ''OPENSEARCH_USERNAME'' of
          None \<Rightarrow> []
        | Some username \<Rightarrow>
            if username = [] then []
            else [(''Authorization'',
                   ''Basic '' @ base64 w (username @ '':'' @ orElse (e ''OPENSEARCH_PASSWORD'') []))])"

definition searchRequest :: "env \<Rightarrow> 'f semantic_world \<Rightarrow> 'f list \<Rightarrow> 'f search_request" where
  "searchRequest e w queryVector =
     \<lparr>search_url = OPENSEARCH_URL e @ ''/'' @ INDEX_NAME e @ ''/_search'',
      search_headers = searchHeaders e w,
      search_body = searchQuery e w queryVector\<rparr>"

definition unreachableResponse :: "env \<Rightarrow> 'f out response" where
  "unreachableResponse e =
     semanticError 502
       (''Failed to reach OpenSearch at '' @ OPENSEARCH_URL e @ '' (index: '' @ INDEX_NAME e @ ''). ''
        @ ''Check OPENSEARCH_URL and whether the cluster is reachable from this machine.'')"

text \<open>Lines 118 to 124: the response to zero hits.\<close>

definition noDocumentsResponse :: "'f out response" where
  "noDocumentsResponse =
     \<lparr>status = 200,
      body =
        [(''answer'', OString ''No relevant documents found for your question.''),
         (''search_type'', OString ''semantic''),
         (''docs_retrieved'', ONumber 0)]\<rparr>"

declare noDocumentsResponse_def [code_unfold]

text \<open>Lines 126 to 129: the context.\<close>

definition nl :: string where
  "nl = [CHR 0x0A]"

definition separator :: string where
  "separator = nl @ nl @ ''---'' @ nl @ nl"

definition buildContext :: "'f OpenSearchHit list \<Rightarrow> string" where
  "buildContext hits =
     join separator
       (map (\<lambda>(i, hit). ''Document '' @ decimal (i + 1) @ '':'' @ nl @ source_text hit)
          (List.enumerate 0 hits))"

text \<open>Lines 132 to 160: the request to the generation provider, for the string
  \<open>questionText\<close> that the template literal makes of the message.\<close>

definition systemPrompt :: string where
  \<open>systemPrompt =
     join nl
       [''You are a helpful BeeHive Bank support assistant. Answer the user's question using ONLY the information provided in the context below.'',
        [],
        ''INSTRUCTIONS:'',
        ''1. Read ALL the context documents carefully'',
        ''2. Find the specific section that answers the question'',
        ''3. Provide exact numbers, rates, and details from the context'',
        ''4. If asked about APR or rates, include the specific rate ranges and any conditions'',
        [],
        ''FORMATTING RULES:'',
        ''- When comparing multiple products (cards, loans, accounts), use a MARKDOWN TABLE'',
        ''- Use bullet points for: features, benefits, requirements, step-by-step processes'',
        ''- Bold important numbers and key terms'',
        ''- Keep responses concise but complete'',
        [],
        ''If the information is not in the context, say "I don't have that specific information in my knowledge base."'']\<close>

definition userContent :: "string \<Rightarrow> string \<Rightarrow> string" where
  "userContent context questionText =
     ''CONTEXT:'' @ nl @ context @ nl @ nl @ ''QUESTION: '' @ questionText @ nl @ nl
     @ ''ANSWER (use specific numbers from the context):''"

definition chatRequest :: "env \<Rightarrow> string \<Rightarrow> string \<Rightarrow> chat_request" where
  "chatRequest e questionText context =
     \<lparr>chat_model = OPENAI_LLM_MODEL e,
      messages = [(''system'', systemPrompt), (''user'', userContent context questionText)],
      temperature = ''0.3'',
      max_tokens = 1000\<rparr>"

text \<open>Line 162: \<open>completion.choices[0]?.message?.content || 'No response generated.'\<close>.\<close>

definition generatedText :: "choice list \<Rightarrow> string option" where
  "generatedText choices =
     (case choices of
        [] \<Rightarrow> None
      | c # cs \<Rightarrow>
          (case choice_message c of
             None \<Rightarrow> None
           | Some m \<Rightarrow>
               (case content m of
                  None \<Rightarrow> None
                | Some s \<Rightarrow> if s = [] then None else Some s)))"

definition answerOf :: "choice list \<Rightarrow> string" where
  "answerOf choices =
     (case generatedText choices of Some s \<Rightarrow> s | None \<Rightarrow> ''No response generated.'')"

text \<open>Lines 165 to 170: the documents for display.\<close>

definition retrievedDoc :: "nat \<Rightarrow> 'f OpenSearchHit \<Rightarrow> 'f out" where
  "retrievedDoc i hit =
     OObject
       [(''rank'', ONumber (int (i + 1))),
        (''score'', OFloat (score hit)),
        (''text'', OString (take 500 (source_text hit)
                            @ (if length (source_text hit) > 500 then ''...'' else []))),
        (''file_path'', OString (orElse (file_path hit) ''unknown''))]"

definition retrievedDocs :: "'f OpenSearchHit list \<Rightarrow> 'f out list" where
  "retrievedDocs hits = map (\<lambda>(i, hit). retrievedDoc i hit) (List.enumerate 0 hits)"

text \<open>Lines 173 to 193: the query for display and the search information.\<close>

definition displayVector :: "'f semantic_world \<Rightarrow> 'f list \<Rightarrow> string" where
  "displayVector w queryVector =
     ''['' @ join '', '' (map (toFixed4 w) (take 5 queryVector))
     @ ''... ('' @ decimal (length queryVector) @ '' dimensions)]''"

definition displayQuery :: "env \<Rightarrow> 'f semantic_world \<Rightarrow> 'f list \<Rightarrow> json" where
  "displayQuery e w queryVector =
     JObject
       [(''size'', JNumber (OPENSEARCH_K e w)),
        (''_source'', JArray [JString ''text'', JString ''file_path'']),
        (''query'', JObject
           [(''knn'', JObject
              [(OPENSEARCH_VECTOR_FIELD e, JObject
                 [(''vector'', JString (displayVector w queryVector)),
                  (''k'', JNumber (OPENSEARCH_K e w))])])])]"

definition searchInfo :: "env \<Rightarrow> 'f semantic_world \<Rightarrow> 'f list \<Rightarrow> 'f out" where
  "searchInfo e w queryVector =
     OObject
       [(''type'', OString ''k-NN Vector Search''),
        (''index'', OString (INDEX_NAME e)),
        (''embedding_model'', OString (OPENAI_EMBEDDING_MODEL e)),
        (''k'', ONumber (OPENSEARCH_K e w)),
        (''query'', OString (stringify_indent w (displayQuery e w queryVector)))]"

text \<open>Lines 195 to 201: the response with an answer.\<close>

definition semanticAnswer ::
  "env \<Rightarrow> 'f semantic_world \<Rightarrow> 'f list \<Rightarrow> 'f OpenSearchHit list \<Rightarrow> string \<Rightarrow> 'f out response" where
  "semanticAnswer e w queryVector hits answer =
     \<lparr>status = 200,
      body =
        [(''answer'', OString answer),
         (''search_type'', OString ''semantic''),
         (''docs_retrieved'', ONumber (int (length hits))),
         (''retrieved_docs'', OArray (retrievedDocs hits)),
         (''search_info'', searchInfo e w queryVector)]\<rparr>"

text \<open>Lines 126 to 201: context, generation and response, for at least one hit. Every
  stage returns what the \<open>try\<close> block comes to (a thrown value or a response) and the
  calls it made. The argument of the call is built first: a message that cannot be
  converted to a string throws before the provider is called.\<close>

definition generate ::
  "env \<Rightarrow> 'f semantic_world \<Rightarrow> json \<Rightarrow> 'f list \<Rightarrow> 'f OpenSearchHit list
     \<Rightarrow> (exn + 'f out response) \<times> 'f call list" where
  "generate e w message queryVector hits =
     (let context = buildContext hits
      in case jsToString (number_toString w) message of
           Inl ex \<Rightarrow> (Inl ex, [])
         | Inr questionText \<Rightarrow>
             (let req = chatRequest e questionText context
              in (case chat_completions_create w req of
                    Inl ex \<Rightarrow> Inl ex
                  | Inr choices \<Rightarrow> Inr (semanticAnswer e w queryVector hits (answerOf choices)),
                  [ChatCompletionsCreate req])))"

text \<open>Lines 106 to 124: the reply of the index.\<close>

definition afterSearch ::
  "env \<Rightarrow> 'f semantic_world \<Rightarrow> json \<Rightarrow> 'f list \<Rightarrow> 'f search_response
     \<Rightarrow> (exn + 'f out response) \<times> 'f call list" where
  "afterSearch e w message queryVector searchResponse =
     (if \<not> ok (search_status searchResponse)
      then (case search_text searchResponse of
              Inl ex \<Rightarrow> (Inl ex, [])
            | Inr errorText \<Rightarrow> (Inr (semanticError 502 ''Failed to search OpenSearch''), []))
      else
        (case search_json searchResponse of
           Inl ex \<Rightarrow> (Inl ex, [])
         | Inr SearchNull \<Rightarrow>
             (Inl (TypeErr ''Cannot read properties of null (reading 'hits')''), [])
         | Inr (SearchData found) \<Rightarrow>
             (let hits = (case found of None \<Rightarrow> [] | Some hs \<Rightarrow> hs)
              in if length hits = 0 then (Inr noDocumentsResponse, [])
                 else generate e w message queryVector hits)))"

text \<open>Lines 67 to 104: the search; a \<open>fetch\<close> that throws is answered at once.\<close>

definition search ::
  "env \<Rightarrow> 'f semantic_world \<Rightarrow> json \<Rightarrow> 'f list \<Rightarrow> (exn + 'f out response) \<times> 'f call list" where
  "search e w message queryVector =
     (let req = searchRequest e w queryVector
      in case search_fetch w req of
           Inl err \<Rightarrow> (Inr (unreachableResponse e), [Fetch req])
         | Inr searchResponse \<Rightarrow>
             (case afterSearch e w message queryVector searchResponse of
                (res, calls) \<Rightarrow> (res, Fetch req # calls)))"

text \<open>Lines 59 to 65: the embedding of the question; \<open>data[0]\<close> of an empty \<open>data\<close> is
  \<open>undefined\<close>.\<close>

definition embed ::
  "env \<Rightarrow> 'f semantic_world \<Rightarrow> json \<Rightarrow> (exn + 'f out response) \<times> 'f call list" where
  "embed e w message =
     (case embeddings_create w (OPENAI_EMBEDDING_MODEL e) message of
        Inl ex \<Rightarrow> (Inl ex, [EmbeddingsCreate (OPENAI_EMBEDDING_MODEL e) message])
      | Inr [] \<Rightarrow>
          (Inl (TypeErr ''Cannot read properties of undefined (reading 'embedding')''),
           [EmbeddingsCreate (OPENAI_EMBEDDING_MODEL e) message])
      | Inr (queryVector # others) \<Rightarrow>
          (case search e w message queryVector of
             (res, calls) \<Rightarrow> (res, EmbeddingsCreate (OPENAI_EMBEDDING_MODEL e) message # calls)))"

text \<open>Lines 31 to 57: the request and the configuration.\<close>

definition semantic_try ::
  "env \<Rightarrow> 'f semantic_world \<Rightarrow> (exn + 'f out response) \<times> 'f call list" where
  "semantic_try e w =
     (case request_body w of
        Inl ex \<Rightarrow> (Inl ex, [])
      | Inr reqBody \<Rightarrow>
          (case getProp reqBody ''message'' of
             Inl ex \<Rightarrow> (Inl ex, [])
           | Inr messageField \<Rightarrow>
               (case pick messageField of
                  None \<Rightarrow> (Inr (semanticError 400 ''Message is required''), [])
                | Some message \<Rightarrow>
                    if OPENAI_API_KEY e = []
                    then (Inr (semanticError 500 ''OPENAI_API_KEY not configured''), [])
                    else if OPENSEARCH_URL e = []
                    then (Inr (semanticError 500
                                 ''OPENSEARCH_URL not configured. Set it in frontend/.env.local.''), [])
                    else embed e w message)))"

text \<open>The direct route \<open>POST\<close>, with its outer \<open>catch\<close>: the response and the calls made.\<close>

definition semantic_POST :: "env \<Rightarrow> 'f semantic_world \<Rightarrow> 'f out response \<times> 'f call list" where
  "semantic_POST e w =
     (case semantic_try e w of
        (Inl ex, calls) \<Rightarrow> (semanticError 500 (errorMessage ex), calls)
      | (Inr r, calls) \<Rightarrow> (r, calls))"


section \<open>The direct route: what the claims speak of\<close>

text \<open>The context in the specification's words: the documents of rank 1 to \<open>K\<close>, each
  rendered as \<open>Document <rank>:\<close>, a newline and its text, joined by the separator.\<close>

definition renderDocument :: "nat \<Rightarrow> 'f OpenSearchHit \<Rightarrow> string" where
  "renderDocument rank hit = ''Document '' @ decimal rank @ '':'' @ nl @ source_text hit"

definition context_spec :: "'f OpenSearchHit list \<Rightarrow> string" where
  "context_spec hits =
     join separator
       (map (\<lambda>rank. renderDocument rank (hits ! (rank - 1))) [1..<Suc (length hits)])"

text \<open>The run got as far as the reply \<open>searchResponse\<close> of the index: the request
  carries the message, both configuration values are set, and the embedding provider
  returned \<open>queryVector\<close> first.\<close>

definition searched ::
  "env \<Rightarrow> 'f semantic_world \<Rightarrow> json \<Rightarrow> 'f list \<Rightarrow> 'f search_response \<Rightarrow> bool" where
  "searched e w message queryVector searchResponse =
     ((case request_body w of
         Inl ex \<Rightarrow> False
       | Inr reqBody \<Rightarrow>
           (case getProp reqBody ''message'' of
              Inl ex \<Rightarrow> False
            | Inr messageField \<Rightarrow> pick messageField = Some message))
      \<and> OPENAI_API_KEY e \<noteq> []
      \<and> OPENSEARCH_URL e \<noteq> []
      \<and> (case embeddings_create w (OPENAI_EMBEDDING_MODEL e) message of
            Inl ex \<Rightarrow> False
          | Inr vectors \<Rightarrow> (case vectors of [] \<Rightarrow> False | v # vs \<Rightarrow> v = queryVector))
      \<and> (case search_fetch w (searchRequest e w queryVector) of
            Inl ex \<Rightarrow> False
          | Inr r \<Rightarrow> r = searchResponse))"

text \<open>Retrieval succeeded with the hits \<open>hits\<close>: the index replied with a success status
  and a body whose \<open>hits?.hits || []\<close> is \<open>hits\<close>.\<close>

definition retrieved ::
  "env \<Rightarrow> 'f semantic_world \<Rightarrow> json \<Rightarrow> 'f list \<Rightarrow> 'f search_response \<Rightarrow> 'f OpenSearchHit list \<Rightarrow> bool" where
  "retrieved e w message queryVector searchResponse hits =
     (searched e w message queryVector searchResponse
      \<and> ok (search_status searchResponse)
      \<and> (case search_json searchResponse of
            Inl ex \<Rightarrow> False
          | Inr SearchNull \<Rightarrow> False
          | Inr (SearchData found) \<Rightarrow> (case found of None \<Rightarrow> [] | Some hs \<Rightarrow> hs) = hits))"

text \<open>The calls of a run up to and with the search.\<close>

definition retrievalCalls :: "env \<Rightarrow> 'f semantic_world \<Rightarrow> json \<Rightarrow> 'f list \<Rightarrow> 'f call list" where
  "retrievalCalls e w message queryVector =
     [EmbeddingsCreate (OPENAI_EMBEDDING_MODEL e) message, Fetch (searchRequest e w queryVector)]"

definition isChatCall :: "'f call \<Rightarrow> bool" where
  "isChatCall c = (case c of ChatCompletionsCreate req \<Rightarrow> True | _ \<Rightarrow> False)"

text \<open>The fields of a response body, as the interface of the specification lists them.\<close>

definition isString :: "'f out option \<Rightarrow> bool" where
  "isString v = (case v of Some (OString s) \<Rightarrow> True | _ \<Rightarrow> False)"

definition isInteger :: "'f out option \<Rightarrow> bool" where
  "isInteger v = (case v of Some (ONumber n) \<Rightarrow> True | _ \<Rightarrow> False)"

definition isDocument :: "'f out \<Rightarrow> bool" where
  "isDocument d =
     (case d of
        OObject kvs \<Rightarrow>
          isInteger (map_of kvs ''rank'')
          \<and> (case map_of kvs ''score'' of Some (OFloat x) \<Rightarrow> True | _ \<Rightarrow> False)
          \<and> isString (map_of kvs ''text'')
          \<and> isString (map_of kvs ''file_path'')
      | _ \<Rightarrow> False)"

definition isDocumentArray :: "'f out option \<Rightarrow> bool" where
  "isDocumentArray v = (case v of Some (OArray ds) \<Rightarrow> list_all isDocument ds | _ \<Rightarrow> False)"

definition isObject :: "'f out option \<Rightarrow> bool" where
  "isObject v = (case v of Some (OObject kvs) \<Rightarrow> True | _ \<Rightarrow> False)"

definition hasAnswerFields :: "(string \<times> 'f out) list \<Rightarrow> bool" where
  "hasAnswerFields b =
     (isString (map_of b ''answer'')
      \<and> map_of b ''search_type'' = Some (OString ''semantic'')
      \<and> isInteger (map_of b ''docs_retrieved''))"

definition hasDocumentFields :: "(string \<times> 'f out) list \<Rightarrow> bool" where
  "hasDocumentFields b =
     (isDocumentArray (map_of b ''retrieved_docs'') \<and> isObject (map_of b ''search_info''))"

text \<open>A simulated run of the direct route: the request body, the vectors of the
  embedding provider, the reply of the index and the outcome of the generation
  provider are given.\<close>

definition simulated_semantic ::
  "json \<Rightarrow> int list list \<Rightarrow> int search_response \<Rightarrow> (exn + choice list) \<Rightarrow> int semantic_world" where
  "simulated_semantic reqBody vectors searchResponse completion =
     \<lparr>request_body = Inr reqBody,
      embeddings_create = (\<lambda>m input. Inr vectors),
      search_fetch = (\<lambda>req. Inr searchResponse),
      chat_completions_create = (\<lambda>req. completion),
      toNumber = (\<lambda>s. 2),
      toFixed4 = (\<lambda>x. ''0.0000''),
      base64 = (\<lambda>s. s),
      stringify_indent = (\<lambda>v. ''{}''),
      number_toString = (\<lambda>n. ''1e+21'')\<rparr>"

definition semantic_env :: env where
  "semantic_env =
     [''OPENAI_API_KEY'' \<mapsto> ''sk-demo'',
      ''OPENSEARCH_URL'' \<mapsto> ''https://search.example.com:9200/'']"

definition nonsense :: json where
  "nonsense = JObject [(''message'', JString ''asdkjalksjd nonsense query'')]"

definition hit1 :: "int OpenSearchHit" where
  "hit1 = \<lparr>source_text = ''The card APR is 19.9%.'', file_path = Some ''cards.pdf'', score = 1\<rparr>"

definition hit2 :: "int OpenSearchHit" where
  "hit2 = \<lparr>source_text = ''Loans start at 6.5%.'', file_path = None, score = 0\<rparr>"

definition reply :: "nat \<Rightarrow> int OpenSearchHit list option \<Rightarrow> int search_response" where
  "reply st found =
     \<lparr>search_status = st, search_text = Inr ''{}'', search_json = Inr (SearchData found)\<rparr>"


text \<open>The simulated runs of the direct route: two hits and an answer, no hit, a reply
  with status 404, a generation provider that throws, and one that returns no text.\<close>

definition question :: json where
  "question = JString ''asdkjalksjd nonsense query''"

definition queryVector0 :: "int list" where
  "queryVector0 = [1, 2, 3]"

definition completion_text :: "string \<Rightarrow> exn + choice list" where
  "completion_text s = Inr [\<lparr>choice_message = Some \<lparr>content = Some s\<rparr>\<rparr>]"

definition run_hits :: "int semantic_world" where
  "run_hits =
     simulated_semantic nonsense [queryVector0] (reply 200 (Some [hit1, hit2]))
       (completion_text ''The card APR is 19.9%.'')"

definition run_no_hits :: "int semantic_world" where
  "run_no_hits = simulated_semantic nonsense [queryVector0] (reply 200 (Some [])) (Inr [])"

definition run_status_404 :: "int semantic_world" where
  "run_status_404 = simulated_semantic nonsense [queryVector0] (reply 404 None) (Inr [])"

definition run_provider_error :: "int semantic_world" where
  "run_provider_error =
     simulated_semantic nonsense [queryVector0] (reply 200 (Some [hit1]))
       (Inl (Err ''Rate limit exceeded''))"

definition run_empty_output :: "int semantic_world" where
  "run_empty_output =
     simulated_semantic nonsense [queryVector0] (reply 200 (Some [hit1])) (completion_text [])"


section \<open>TLS verification: the three variants\<close>

lemma script_follows_precedence: "getRejectUnauthorized_script e = tlsVerify_spec e"
  by (simp add: getRejectUnauthorized_script_def tlsVerify_spec_def falseLike_def Let_def)

lemma client_eq_script: "getRejectUnauthorized_client e = getRejectUnauthorized_script e"
  unfolding getRejectUnauthorized_client_def getRejectUnauthorized_script_def
  by (cases "e ''OPENSEARCH_SSL_VERIFY''"; cases "e ''OPENSEARCH_SSL_REJECT_UNAUTHORIZED''";
      cases "e ''OPENSEARCH_URL''")
     (simp_all add: orElse_def nullish_def Let_def)

text \<open>
  Claim C4. The precedence (skip flag, then reject-unauthorized flag, then the default
  of the environment) is what the index script and the second client module compute,
  but not what \<open>getRejectUnauthorized\<close> of \<open>lib/opensearch.ts\<close> computes: with
  \<open>OPENSEARCH_SSL_VERIFY=false\<close> as the only flag, that client still verifies
  certificates, where the precedence (and the two other variants) skip verification.
\<close>

theorem C4_lib_client_ignores_skip_flag:
  "getRejectUnauthorized env_skip_only = True
   \<and> tlsVerify_spec env_skip_only = False
   \<and> getRejectUnauthorized_script env_skip_only = False
   \<and> getRejectUnauthorized_client env_skip_only = False"
  by code_simp

section \<open>The delegate route: the extraction loops\<close>

lemma getProp_optChain: "v \<noteq> JNull \<Longrightarrow> getProp v k = Inr (optChain (Some v) k)"
  by (cases v) simp_all

lemma innerStep_recognized:
  "io \<noteq> JNull \<Longrightarrow> innerStep a io = Inr (case recognized io of Some t \<Rightarrow> t | None \<Rightarrow> a)"
  by (simp add: innerStep_def recognized_def getProp_optChain split: option.splits)

lemma lastRecognized_Nil [simp]: "lastRecognized [] = None"
  by (simp add: lastRecognized_def List.map_filter_simps)

lemma lastRecognized_Cons:
  "lastRecognized (io # ios) =
     (case lastRecognized ios of Some t \<Rightarrow> Some t | None \<Rightarrow> recognized io)"
  by (simp add: lastRecognized_def List.map_filter_simps split: option.splits list.splits)

lemma lastRecognized_append:
  "lastRecognized (xs @ ys) =
     (case lastRecognized ys of Some t \<Rightarrow> Some t | None \<Rightarrow> lastRecognized xs)"
  by (induction xs) (simp_all add: lastRecognized_Cons split: option.splits)

lemma innerLoop_lastRecognized:
  "JNull \<notin> set ios \<Longrightarrow>
   innerLoop a ios = Inr (case lastRecognized ios of Some t \<Rightarrow> t | None \<Rightarrow> a)"
proof (induction ios arbitrary: a)
  case Nil
  then show ?case by simp
next
  case (Cons io ios)
  then have "io \<noteq> JNull" and rest: "JNull \<notin> set ios" by auto
  then show ?case
    using Cons.IH [OF rest]
    by (simp add: innerStep_recognized lastRecognized_Cons split: option.splits)
qed

lemma outerLoop_lastRecognized:
  "scannable outs \<Longrightarrow>
   outerLoop a outs =
     Inr (case lastRecognized (concat (map innerOutputsOf outs)) of Some t \<Rightarrow> t | None \<Rightarrow> a)"
proof (induction outs arbitrary: a)
  case Nil
  then show ?case by simp
next
  case (Cons out outs)
  from Cons.prems have rest: "scannable outs" and nn: "out \<noteq> JNull"
    by (simp_all add: scannable_def)
  show ?case
  proof (cases "pick (optChain (Some out) ''outputs'')")
    case None
    then show ?thesis
      using Cons.IH [OF rest] nn
      by (simp add: getProp_optChain innerOutputsOf_def)
  next
    case (Some v)
    with Cons.prems obtain ios where it: "iterate v = Inr ios" and ios: "JNull \<notin> set ios"
      by (auto simp: scannable_def split: sum.splits)
    show ?thesis
      using Cons.IH [OF rest] nn Some it innerLoop_lastRecognized [OF ios]
      by (simp add: getProp_optChain innerOutputsOf_def lastRecognized_append split: option.splits)
  qed
qed

lemma pick_truthy: "pick v = Some t \<Longrightarrow> truthy t"
  by (auto simp: pick_def split: option.splits if_splits)

lemma recognized_truthy: "recognized io = Some t \<Longrightarrow> truthy t"
  by (auto simp: recognized_def split: option.splits dest: pick_truthy)

lemma lastRecognized_truthy: "lastRecognized ios = Some t \<Longrightarrow> truthy t"
proof (induction ios)
  case Nil
  then show ?case by simp
next
  case (Cons io ios)
  then show ?case
    by (auto simp: lastRecognized_Cons split: option.splits dest: recognized_truthy)
qed

lemma extractAnswer_outputs:
  assumes "d \<noteq> JNull" and "pick (optChain (Some d) ''outputs'') = Some os"
    and "iterate os = Inr outs" and "scannable outs"
  shows "extractAnswer w d =
           Inr (case lastRecognized (concat (map innerOutputsOf outs)) of
                  Some t \<Rightarrow> t | None \<Rightarrow> JString [])"
  using assms by (simp add: extractAnswer_def getProp_optChain outerLoop_lastRecognized)

lemma normalizeAnswer_outputs:
  assumes "d \<noteq> JNull" and "pick (optChain (Some d) ''outputs'') = Some os"
    and "iterate os = Inr outs" and "scannable outs"
  shows "normalizeAnswer w d =
           Inr (case lastRecognized (concat (map innerOutputsOf outs)) of
                  Some t \<Rightarrow> t | None \<Rightarrow> noAnswer)"
  using extractAnswer_outputs [OF assms, of w]
  by (auto simp: normalizeAnswer_def noAnswer_def split: option.splits dest: lastRecognized_truthy)

lemma extractAnswer_noOutputs:
  assumes "d \<noteq> JNull" and "pick (optChain (Some d) ''outputs'') = None"
  shows "extractAnswer w d =
           Inr (case pick (optChain (Some d) ''result'') of
                  Some r \<Rightarrow>
                    (case r of
                       JString s \<Rightarrow> JString s
                     | _ \<Rightarrow> (case pick (optChain (Some r) ''text'') of
                              Some t \<Rightarrow> t
                            | None \<Rightarrow> JString (JSON_stringify w r)))
                | None \<Rightarrow>
                    (case shape3 d of Some t \<Rightarrow> t | None \<Rightarrow> JString []))"
proof (cases "pick (optChain (Some d) ''result'')")
  case None
  with assms show ?thesis
    by (simp add: extractAnswer_def getProp_optChain shape3_def split: option.splits)
next
  case (Some r)
  with assms show ?thesis
    by (cases r) (simp_all add: extractAnswer_def getProp_optChain split: option.splits)
qed

lemma normalizeAnswer_noOutputs:
  assumes "d \<noteq> JNull" and "pick (optChain (Some d) ''outputs'') = None"
  shows "normalizeAnswer w d = Inr (normalize_byField w d)"
proof (cases "pick (optChain (Some d) ''result'')")
  case None
  with assms show ?thesis
    by (auto simp: normalizeAnswer_def extractAnswer_noOutputs normalize_byField_def noAnswer_def
             shape3_def split: option.splits dest: pick_truthy)
next
  case (Some r)
  then have tr: "truthy r" by (rule pick_truthy)
  show ?thesis
  proof (cases "pick (optChain (Some r) ''text'')")
    case None
    with Some assms tr show ?thesis
      by (cases r; cases "JSON_stringify w r = []")
         (simp_all add: normalizeAnswer_def extractAnswer_noOutputs normalize_byField_def
            noAnswer_def shape2_def pick_def)
  next
    case (Some t)
    then have "truthy t" by (rule pick_truthy)
    with Some \<open>pick (optChain (Some d) ''result'') = Some r\<close> assms tr show ?thesis
      by (cases r)
         (simp_all add: normalizeAnswer_def extractAnswer_noOutputs normalize_byField_def
            noAnswer_def shape2_def)
  qed
qed

lemma innerLoop_throws: "JNull \<in> set ios \<Longrightarrow> \<exists>ex. innerLoop a ios = Inl ex"
proof (induction ios arbitrary: a)
  case Nil
  then show ?case by simp
next
  case (Cons io ios)
  show ?case
  proof (cases "io = JNull")
    case True
    then show ?thesis by (simp add: innerStep_def)
  next
    case False
    with Cons.prems have "JNull \<in> set ios" by simp
    then obtain ex where
      "innerLoop (case recognized io of Some t \<Rightarrow> t | None \<Rightarrow> a) ios = Inl ex"
      using Cons.IH by blast
    with False show ?thesis by (simp add: innerStep_recognized)
  qed
qed

lemma scannable_Cons:
  "scannable (out # outs) =
     (out \<noteq> JNull
      \<and> (case pick (optChain (Some out) ''outputs'') of
           None \<Rightarrow> True
         | Some v \<Rightarrow> (case iterate v of Inl ex \<Rightarrow> False | Inr ios \<Rightarrow> JNull \<notin> set ios))
      \<and> scannable outs)"
  by (auto simp: scannable_def)

lemma outerLoop_throws: "\<not> scannable outs \<Longrightarrow> \<exists>ex. outerLoop a outs = Inl ex"
proof (induction outs arbitrary: a)
  case Nil
  then show ?case by (simp add: scannable_def)
next
  case (Cons out outs)
  show ?case
  proof (cases "out = JNull")
    case True
    then show ?thesis by simp
  next
    case nn: False
    show ?thesis
    proof (cases "pick (optChain (Some out) ''outputs'')")
      case None
      with Cons.prems nn have "\<not> scannable outs" by (simp add: scannable_Cons)
      then obtain ex where "outerLoop a outs = Inl ex" using Cons.IH by blast
      with None nn show ?thesis by (simp add: getProp_optChain)
    next
      case (Some v)
      show ?thesis
      proof (cases "iterate v")
        case (Inl ex)
        with Some nn show ?thesis by (simp add: getProp_optChain)
      next
        case (Inr ios)
        show ?thesis
        proof (cases "JNull \<in> set ios")
          case True
          then obtain ex where "innerLoop a ios = Inl ex" using innerLoop_throws by blast
          with Some Inr nn show ?thesis by (simp add: getProp_optChain)
        next
          case False
          with Cons.prems nn Some Inr have "\<not> scannable outs" by (simp add: scannable_Cons)
          then obtain ex where
            "outerLoop (case lastRecognized ios of Some t \<Rightarrow> t | None \<Rightarrow> a) outs = Inl ex"
            using Cons.IH by blast
          with Some Inr nn False show ?thesis
            by (simp add: getProp_optChain innerLoop_lastRecognized)
        qed
      qed
    qed
  qed
qed

lemma normalizeAnswer_throws: "\<not> scans d \<Longrightarrow> \<exists>ex. normalizeAnswer w d = Inl ex"
proof (cases "d = JNull")
  case True
  then show ?thesis by (simp add: normalizeAnswer_def extractAnswer_def)
next
  case nn: False
  assume ns: "\<not> scans d"
  with nn obtain os where os: "pick (optChain (Some d) ''outputs'') = Some os"
    by (auto simp: scans_def split: option.splits)
  show ?thesis
  proof (cases "iterate os")
    case (Inl ex)
    with os nn show ?thesis
      by (simp add: normalizeAnswer_def extractAnswer_def getProp_optChain)
  next
    case (Inr outs)
    with ns nn os have "\<not> scannable outs" by (simp add: scans_def)
    then obtain ex where "outerLoop (JString []) outs = Inl ex" using outerLoop_throws by blast
    with os Inr nn show ?thesis
      by (simp add: normalizeAnswer_def extractAnswer_def getProp_optChain)
  qed
qed

section \<open>The delegate route: normalization of the answer\<close>

text \<open>
  Claim C3, as the code has it. The extraction reads a parsed body without a
  \<open>TypeError\<close> exactly when the body is not \<open>null\<close> and its \<open>outputs\<close>, when it passes
  its test, is iterable, has no \<open>null\<close> entry, and every entry's own \<open>outputs\<close>, when it
  passes its test, is iterable and has no \<open>null\<close> entry. For such a body the answer is the
  text of one shape only, the shape of the first top-level field among \<open>outputs\<close>,
  \<open>result\<close> and \<open>text\<close> that passes its test: (1) the nested \<open>outputs[].outputs[]\<close>
  structure with the text at \<open>results.message.text\<close>, \<open>results.text\<close> or
  \<open>message.text\<close>; (2) \<open>result\<close>, a string or its \<open>text\<close> or its serialization;
  (3) \<open>text\<close>. When that shape yields no text, or no field is there, the answer is the
  literal \<open>No response received from the RAG system.\<close> For every other body the
  extraction throws.
\<close>

theorem C3_shape_chosen_by_field:
  "(scans d \<longrightarrow> normalizeAnswer w d = Inr (normalize_byField w d))
   \<and> (\<not> scans d \<longrightarrow> (\<exists>ex. normalizeAnswer w d = Inl ex))"
proof (intro conjI impI)
  assume sc: "scans d"
  show "normalizeAnswer w d = Inr (normalize_byField w d)"
  proof (cases "pick (optChain (Some d) ''outputs'')")
    case None
    with sc show ?thesis by (simp add: normalizeAnswer_noOutputs scans_def)
  next
    case (Some os)
    with sc obtain outs where "iterate os = Inr outs" "scannable outs" "d \<noteq> JNull"
      by (auto simp: scans_def split: sum.splits)
    with Some show ?thesis
      by (simp add: normalizeAnswer_outputs normalize_byField_def shape1_def)
  qed
next
  assume "\<not> scans d"
  then show "\<exists>ex. normalizeAnswer w d = Inl ex" by (rule normalizeAnswer_throws)
qed

theorem C3_shape_chosen_by_field_witness:
  "scans outputs42
   \<and> normalizeAnswer (simulated_chat hello 200 [] []) outputs42 = Inr (JString ''42'')"
proof -
  have h: "scans outputs42" by code_simp
  have v: "normalize_byField (simulated_chat hello 200 [] []) outputs42 = JString ''42''"
    by code_simp
  show ?thesis
    using C3_shape_chosen_by_field [of outputs42 "simulated_chat hello 200 [] []"] h v by simp
qed

text \<open>A body with an empty \<open>outputs\<close> array and a \<open>result\<close>: the second shape yields
  \<open>hello\<close>, yet the answer is the literal, since \<open>outputs\<close> passes its test.\<close>

theorem C3_first_present_field_counterexample:
  "normalizeAnswer (simulated_chat hello 200 [] []) empty_outputs_with_result = Inr noAnswer
   \<and> normalize_spec (simulated_chat hello 200 [] []) empty_outputs_with_result = JString ''hello''
   \<and> normalizeAnswer (simulated_chat hello 200 [] []) empty_outputs_with_result
       \<noteq> Inr (normalize_spec (simulated_chat hello 200 [] []) empty_outputs_with_result)"
  by code_simp

text \<open>
  Claim C10, as the code has it. For a parsed body whose \<open>outputs\<close> is an array: when no
  entry of the array is \<open>null\<close> and every entry's own \<open>outputs\<close>, when it passes its test,
  is iterable and has no \<open>null\<close> entry, the loops visit every inner output of every
  entry, and the answer is the text of the last inner output that carries a recognized
  text, \<open>results.message.text\<close> before \<open>results.text\<close> before \<open>message.text\<close> within one
  inner output; otherwise the extraction throws and no answer is normalized.
\<close>

theorem C10_last_recognized_wins:
  assumes "map_of kvs ''outputs'' = Some (JArray outs)"
  shows "(scannable outs
          \<and> concat (map innerOutputsOf outs) = pre @ io # post
          \<and> recognized io = Some t
          \<and> (\<forall>x \<in> set post. recognized x = None) \<longrightarrow>
            normalizeAnswer w (JObject kvs) = Inr t)
         \<and> (\<not> scannable outs \<longrightarrow> (\<exists>ex. normalizeAnswer w (JObject kvs) = Inl ex))"
proof (intro conjI impI)
  assume a: "scannable outs
          \<and> concat (map innerOutputsOf outs) = pre @ io # post
          \<and> recognized io = Some t
          \<and> (\<forall>x \<in> set post. recognized x = None)"
  then have "\<forall>x \<in> set post. recognized x = None" by simp
  then have post: "lastRecognized post = None"
    by (induction post) (simp_all add: lastRecognized_Cons)
  have "lastRecognized (pre @ io # post) = Some t"
    using post a by (simp add: lastRecognized_append lastRecognized_Cons)
  moreover have "pick (optChain (Some (JObject kvs)) ''outputs'') = Some (JArray outs)"
    using assms by (simp add: pick_def)
  ultimately show "normalizeAnswer w (JObject kvs) = Inr t"
    using a normalizeAnswer_outputs [of "JObject kvs" "JArray outs" outs w]
    by simp
next
  assume "\<not> scannable outs"
  with assms have "\<not> scans (JObject kvs)"
    by (simp add: scans_def pick_def)
  then show "\<exists>ex. normalizeAnswer w (JObject kvs) = Inl ex"
    by (rule normalizeAnswer_throws)
qed

theorem C10_last_recognized_wins_witness:
  "map_of two_outputs ''outputs'' = Some (JArray [output_a, output_b])
   \<and> scannable [output_a, output_b]
   \<and> concat (map innerOutputsOf [output_a, output_b])
       = [inner_first, inner_plain] @ inner_second # [inner_empty]
   \<and> recognized inner_second = Some (JString ''second'')
   \<and> recognized inner_empty = None
   \<and> normalizeAnswer (simulated_chat hello 200 [] []) (JObject two_outputs) = Inr (JString ''second'')"
proof -
  have h1: "map_of two_outputs ''outputs'' = Some (JArray [output_a, output_b])"
    by (simp add: two_outputs_def)
  have h2: "scannable [output_a, output_b]" by code_simp
  have h3: "concat (map innerOutputsOf [output_a, output_b])
            = [inner_first, inner_plain] @ inner_second # [inner_empty]"
    by code_simp
  have h4: "recognized inner_second = Some (JString ''second'')" by code_simp
  have h5: "recognized inner_empty = None" by code_simp
  then have h6: "\<forall>x \<in> set [inner_empty]. recognized x = None" by simp
  show ?thesis
    using C10_last_recognized_wins
            [OF h1, of "[inner_first, inner_plain]" inner_second "[inner_empty]"
               "JString ''second''" "simulated_chat hello 200 [] []"]
          h1 h2 h3 h4 h5 h6
    by blast
qed

text \<open>An inner output with a text, followed by a \<open>null\<close> inner output: the last inner
  output that carries a recognized text has the text \<open>first\<close>, yet the extraction throws
  on the \<open>null\<close> entry and the route answers 500.\<close>

theorem C10_null_entry_counterexample:
  "map_of null_after_text ''outputs'' = Some (JArray [output_with_null])
   \<and> lastRecognized (concat (map innerOutputsOf [output_with_null])) = Some (JString ''first'')
   \<and> normalizeAnswer (simulated_chat hello 200 [] []) (JObject null_after_text)
       \<noteq> Inr (JString ''first'')
   \<and> status (chat_POST key_env
               (simulated_chat hello 200 ''{}'' [(''{}'', JObject null_after_text)])) = 500"
  by code_simp

section \<open>The delegate route: responses\<close>

lemma chat_POST_replied:
  assumes "replied e w reqBody message r"
  shows "chat_POST e w =
           (case handleLangflowResponse e w message (optChain (Some reqBody) ''session_id'') r of
              Inl ex \<Rightarrow> errorResponse 500 (errorMessage ex)
            | Inr resp \<Rightarrow> resp)"
  using assms by (simp add: replied_def chat_POST_def chat_try_def pick_def)






lemma errorField_orValue:
  "orValue (optChain (Some d) ''detail'')
     (orValue (optChain (Some d) ''message'')
        (orValue (optChain (Some d) ''error'') (Some (JString ''Unknown error''))))
   = Some (errorField d)"
  by (simp add: errorField_def orValue_def List.map_filter_simps split: option.splits)

lemma NextResponse_json_accepted:
  "statusError st = None \<Longrightarrow> NextResponse_json st b = Inr \<lparr>status = st, body = b\<rparr>"
  by (simp add: NextResponse_json_def)

lemma upstreamErrorResponse_refused:
  "statusError st = Some ex \<Longrightarrow> upstreamErrorResponse w st responseText = Inl ex"
  by (simp add: upstreamErrorResponse_def NextResponse_json_def Let_def
        split: option.splits sum.splits)

lemma upstreamErrorResponse_message:
  assumes "statusError st = None"
    and "JSON_parse w responseText = Some d" and "d \<noteq> JNull"
    and "jsToString (Number_toString w) (errorField d) = Inr msg"
  shows "upstreamErrorResponse w st responseText =
           Inr (errorResponse st (''Langflow error: '' @ msg))"
  using assms
  by (simp add: upstreamErrorResponse_def getProp_optChain errorField_orValue
        NextResponse_json_accepted errorResponse_def)

lemma upstreamErrorResponse_fallback:
  assumes "statusError st = None"
    and "JSON_parse w responseText = None
         \<or> JSON_parse w responseText = Some JNull
         \<or> (\<exists>d ex. JSON_parse w responseText = Some d \<and> d \<noteq> JNull
                \<and> jsToString (Number_toString w) (errorField d) = Inl ex)"
  shows "upstreamErrorResponse w st responseText =
           Inr (errorResponse st (''Langflow API error: '' @ decimal st))"
  using assms
  by (auto simp: upstreamErrorResponse_def getProp_optChain errorField_orValue
        NextResponse_json_accepted errorResponse_def)

text \<open>
  Claim C9, as the code has it. For a status outside 200..299. A body that is an HTML
  page is answered 502 with the message of claim C8. For any other body, when
  \<open>NextResponse.json\<close> accepts the status (it is in 200..599 and not a null-body
  status): if the body parses to a value other than \<open>null\<close> and the first of its fields
  \<open>detail\<close>, \<open>message\<close> and \<open>error\<close> that holds a value (\<open>Unknown error\<close> when none
  does) converts to a string, the route answers with the status of the orchestrator and
  \<open>Langflow error: \<close> followed by that string; if the body does not parse, parses to
  \<open>null\<close>, or the value does not convert to a string, the route answers with the status
  of the orchestrator and a message naming the status only. When \<open>NextResponse.json\<close>
  refuses the status, the route answers 500.
\<close>

theorem C9_upstream_error_passed_through:
  assumes "replied e w reqBody message r"
    and "upstream_text r = Inr responseText"
    and "\<not> ok (upstream_status r)"
  shows "(isHtml responseText \<longrightarrow> chat_POST e w = errorResponse 502 (htmlMessage (authHint e)))
         \<and> (\<not> isHtml responseText \<and> statusError (upstream_status r) = None \<longrightarrow>
              (\<forall>d msg. JSON_parse w responseText = Some d \<and> d \<noteq> JNull
                   \<and> jsToString (Number_toString w) (errorField d) = Inr msg \<longrightarrow>
                 chat_POST e w = errorResponse (upstream_status r) (''Langflow error: '' @ msg))
              \<and> (JSON_parse w responseText = None
                  \<or> JSON_parse w responseText = Some JNull
                  \<or> (\<exists>d ex. JSON_parse w responseText = Some d \<and> d \<noteq> JNull
                         \<and> jsToString (Number_toString w) (errorField d) = Inl ex) \<longrightarrow>
                  chat_POST e w =
                    errorResponse (upstream_status r)
                      (''Langflow API error: '' @ decimal (upstream_status r))))
         \<and> (\<not> isHtml responseText \<and> statusError (upstream_status r) \<noteq> None \<longrightarrow>
              status (chat_POST e w) = 500)"
proof -
  have page: "chat_POST e w = errorResponse 502 (htmlMessage (authHint e))"
    if "isHtml responseText"
    using assms that by (simp add: chat_POST_replied handleLangflowResponse_def htmlResponse_def)
  have post: "chat_POST e w =
      (case upstreamErrorResponse w (upstream_status r) responseText of
         Inl ex \<Rightarrow> errorResponse 500 (errorMessage ex)
       | Inr resp \<Rightarrow> resp)"
    if "\<not> isHtml responseText"
    using assms that by (simp add: chat_POST_replied handleLangflowResponse_def)
  have msg: "chat_POST e w = errorResponse (upstream_status r) (''Langflow error: '' @ msg)"
    if "\<not> isHtml responseText" and "statusError (upstream_status r) = None"
      and "JSON_parse w responseText = Some d \<and> d \<noteq> JNull
           \<and> jsToString (Number_toString w) (errorField d) = Inr msg"
    for d msg
    using that by (simp add: post upstreamErrorResponse_message)
  have fallback: "chat_POST e w =
        errorResponse (upstream_status r) (''Langflow API error: '' @ decimal (upstream_status r))"
    if "\<not> isHtml responseText" and ok: "statusError (upstream_status r) = None"
      and cases: "JSON_parse w responseText = None
           \<or> JSON_parse w responseText = Some JNull
           \<or> (\<exists>d ex. JSON_parse w responseText = Some d \<and> d \<noteq> JNull
                  \<and> jsToString (Number_toString w) (errorField d) = Inl ex)"
  proof -
    have "upstreamErrorResponse w (upstream_status r) responseText =
        Inr (errorResponse (upstream_status r)
               (''Langflow API error: '' @ decimal (upstream_status r)))"
      using ok cases by (rule upstreamErrorResponse_fallback)
    with that(1) show ?thesis by (simp add: post)
  qed
  have refused: "status (chat_POST e w) = 500"
    if "\<not> isHtml responseText" and "statusError (upstream_status r) \<noteq> None"
  proof -
    from that(2) obtain ex where "statusError (upstream_status r) = Some ex" by auto
    then have "upstreamErrorResponse w (upstream_status r) responseText = Inl ex"
      by (rule upstreamErrorResponse_refused)
    with that(1) show ?thesis by (simp add: post errorResponse_def)
  qed
  show ?thesis
    using page msg fallback refused by blast
qed

theorem C9_upstream_error_passed_through_witness:
  "replied Map.empty
     (simulated_chat hello 401 detail_body [(detail_body, JObject [(''detail'', JString ''invalid key'')])])
     hello (JString ''What is the card APR?'')
     \<lparr>upstream_status = 401, upstream_text = Inr detail_body\<rparr>
   \<and> \<not> isHtml detail_body
   \<and> \<not> ok 401
   \<and> statusError 401 = None
   \<and> chat_POST Map.empty
        (simulated_chat hello 401 detail_body [(detail_body, JObject [(''detail'', JString ''invalid key'')])])
      = errorResponse 401 ''Langflow error: invalid key''"
proof -
  let ?d = "JObject [(''detail'', JString ''invalid key'')]"
  let ?w = "simulated_chat hello 401 detail_body [(detail_body, ?d)]"
  let ?r = "\<lparr>upstream_status = 401, upstream_text = Inr detail_body\<rparr>"
  have h1: "replied Map.empty ?w hello (JString ''What is the card APR?'') ?r"
    by code_simp
  have h2: "upstream_text ?r = Inr detail_body" by simp
  have h3: "\<not> isHtml detail_body" by code_simp
  have h4: "\<not> ok (upstream_status ?r)" by (simp add: ok_def)
  have s: "statusError 401 = None" by code_simp
  have p: "JSON_parse ?w detail_body = Some ?d"
    by (simp add: simulated_chat_def)
  have f: "jsToString (Number_toString ?w) (errorField ?d) = Inr ''invalid key''"
    by code_simp
  have "chat_POST Map.empty ?w = errorResponse 401 (''Langflow error: '' @ ''invalid key'')"
    using C9_upstream_error_passed_through [OF h1 h2 h4] h3 s p f by auto
  then show ?thesis
    using h1 h3 s by (simp add: ok_def)
qed

text \<open>Status 401 with an HTML page as body: the body does not parse, and the answer is
  502 with the message of claim C8, not the message naming the status.\<close>

theorem C9_html_error_page_counterexample:
  "\<not> ok 401
   \<and> JSON_parse (simulated_chat hello 401 html401 []) html401 = None
   \<and> chat_POST Map.empty (simulated_chat hello 401 html401 [])
       = errorResponse 502 (htmlMessage missingKeyHint)
   \<and> chat_POST Map.empty (simulated_chat hello 401 html401 [])
       \<noteq> errorResponse 401 (''Langflow API error: '' @ decimal 401)"
  by code_simp

section \<open>The direct route: stages of a run\<close>

lemma buildContext_renderDocument:
  "map (\<lambda>(i, hit). ''Document '' @ decimal (i + 1) @ '':'' @ nl @ source_text hit) (List.enumerate 0 hits)
   = map (\<lambda>rank. renderDocument rank (hits ! (rank - 1))) [1..<Suc (length hits)]"
  by (rule nth_equalityI) (simp_all add: nth_enumerate_eq renderDocument_def nth_upt del: upt_Suc)

lemma buildContext_spec: "buildContext hits = context_spec hits"
  by (simp only: buildContext_def context_spec_def buildContext_renderDocument)

lemma semantic_try_searched:
  assumes "searched e w message queryVector searchResponse"
  shows "semantic_try e w =
           (case afterSearch e w message queryVector searchResponse of
              (res, calls) \<Rightarrow> (res, retrievalCalls e w message queryVector @ calls))"
  using assms
  by (auto simp: searched_def semantic_try_def embed_def search_def retrievalCalls_def Let_def
        split: sum.splits option.splits list.splits prod.splits)

lemma afterSearch_retrieved_none:
  assumes "retrieved e w message queryVector searchResponse []"
  shows "afterSearch e w message queryVector searchResponse = (Inr noDocumentsResponse, [])"
  using assms
  by (auto simp: retrieved_def afterSearch_def split: sum.splits search_data.splits option.splits)

lemma afterSearch_retrieved_some:
  assumes "retrieved e w message queryVector searchResponse hits" and "hits \<noteq> []"
  shows "afterSearch e w message queryVector searchResponse = generate e w message queryVector hits"
  using assms
  by (auto simp: retrieved_def afterSearch_def split: sum.splits search_data.splits option.splits)

lemma retrieved_searched:
  "retrieved e w message queryVector searchResponse hits \<Longrightarrow>
   searched e w message queryVector searchResponse"
  by (simp add: retrieved_def)

lemma semantic_POST_no_hits:
  assumes "retrieved e w message queryVector searchResponse []"
  shows "semantic_POST e w = (noDocumentsResponse, retrievalCalls e w message queryVector)"
  using assms
  by (simp add: semantic_POST_def semantic_try_searched [OF retrieved_searched [OF assms]]
        afterSearch_retrieved_none)

lemma semantic_POST_hits:
  assumes "retrieved e w message queryVector searchResponse hits" and "hits \<noteq> []"
  shows "semantic_POST e w =
           (case jsToString (number_toString w) message of
              Inl ex \<Rightarrow>
                (semanticError 500 (errorMessage ex), retrievalCalls e w message queryVector)
            | Inr questionText \<Rightarrow>
                ((case chat_completions_create w (chatRequest e questionText (buildContext hits)) of
                    Inl ex \<Rightarrow> semanticError 500 (errorMessage ex)
                  | Inr choices \<Rightarrow> semanticAnswer e w queryVector hits (answerOf choices)),
                 retrievalCalls e w message queryVector
                 @ [ChatCompletionsCreate (chatRequest e questionText (buildContext hits))]))"
  using assms
  by (simp add: semantic_POST_def semantic_try_searched [OF retrieved_searched [OF assms(1)]]
        afterSearch_retrieved_some generate_def Let_def split: sum.splits)

text \<open>The generation provider has no part in the retrieval.\<close>

lemma searchRequest_provider_update:
  "searchRequest e (w\<lparr>chat_completions_create := g\<rparr>) queryVector = searchRequest e w queryVector"
  by (simp add: searchRequest_def searchHeaders_def searchQuery_def OPENSEARCH_K_def
        split: option.splits)

lemma retrieved_provider_update:
  "retrieved e (w\<lparr>chat_completions_create := g\<rparr>) message queryVector searchResponse hits
   = retrieved e w message queryVector searchResponse hits"
  by (simp add: retrieved_def searched_def searchRequest_provider_update)

lemma retrievalCalls_provider_update:
  "retrievalCalls e (w\<lparr>chat_completions_create := g\<rparr>) message queryVector
   = retrievalCalls e w message queryVector"
  by (simp add: retrievalCalls_def searchRequest_provider_update)

lemma no_chat_call_in_retrieval: "\<not> list_ex isChatCall (retrievalCalls e w message queryVector)"
  by (simp add: retrievalCalls_def isChatCall_def)

section \<open>The direct route: context, zero hits and failures\<close>

text \<open>
  Claim C1. The context built from the retrieved documents is the documents in input
  order, each rendered as \<open>Document <i>:\<close>, a newline and its text with \<open>i\<close> from 1 to
  \<open>K\<close>, joined by the separator (two newlines, three dashes, two newlines); and for
  \<open>K \<ge> 1\<close> it is this string that the one call to the generation provider carries (a
  message that does not convert to a string ends the run before that call).
  The context is a function of the documents, so equal sequences give equal contexts.
\<close>

theorem C1_context_in_rank_order:
  "buildContext hits = context_spec hits
   \<and> (retrieved e w message queryVector searchResponse hits \<and> 1 \<le> length hits \<longrightarrow>
        snd (semantic_POST e w) =
          retrievalCalls e w message queryVector
          @ (case jsToString (number_toString w) message of
               Inl ex \<Rightarrow> []
             | Inr questionText \<Rightarrow>
                 [ChatCompletionsCreate (chatRequest e questionText (context_spec hits))]))"
proof (intro conjI impI)
  show "buildContext hits = context_spec hits"
    by (rule buildContext_spec)
next
  assume a: "retrieved e w message queryVector searchResponse hits \<and> 1 \<le> length hits"
  then have r: "retrieved e w message queryVector searchResponse hits" and ne: "hits \<noteq> []"
    by auto
  show "snd (semantic_POST e w) =
      retrievalCalls e w message queryVector
      @ (case jsToString (number_toString w) message of
           Inl ex \<Rightarrow> []
         | Inr questionText \<Rightarrow>
             [ChatCompletionsCreate (chatRequest e questionText (context_spec hits))])"
    by (simp add: semantic_POST_hits [OF r ne] buildContext_spec split: sum.splits)
qed

theorem C1_context_in_rank_order_witness:
  "retrieved semantic_env run_hits question queryVector0 (reply 200 (Some [hit1, hit2])) [hit1, hit2]
   \<and> 1 \<le> length [hit1, hit2]
   \<and> buildContext [hit1, hit2] =
       ''Document 1:'' @ nl @ ''The card APR is 19.9%.'' @ nl @ nl @ ''---'' @ nl @ nl
       @ ''Document 2:'' @ nl @ ''Loans start at 6.5%.''
   \<and> snd (semantic_POST semantic_env run_hits) =
       retrievalCalls semantic_env run_hits question queryVector0
       @ [ChatCompletionsCreate
            (chatRequest semantic_env ''asdkjalksjd nonsense query'' (context_spec [hit1, hit2]))]"
proof -
  have r: "retrieved semantic_env run_hits question queryVector0 (reply 200 (Some [hit1, hit2]))
             [hit1, hit2]"
    by code_simp
  have c: "context_spec [hit1, hit2] =
       ''Document 1:'' @ nl @ ''The card APR is 19.9%.'' @ nl @ nl @ ''---'' @ nl @ nl
       @ ''Document 2:'' @ nl @ ''Loans start at 6.5%.''"
    by code_simp
  have q: "jsToString (number_toString run_hits) question = Inr ''asdkjalksjd nonsense query''"
    by (simp add: question_def)
  show ?thesis
    using C1_context_in_rank_order
            [of "[hit1, hit2]" semantic_env run_hits question queryVector0
                "reply 200 (Some [hit1, hit2])"] r c q
    by simp
qed

text \<open>
  Claim C2. When the search returns zero hits, the response is the one with
  \<open>docs_retrieved\<close> 0 and an answer containing \<open>No relevant documents found\<close>; the run
  makes no call to the generation provider, and the response is the same whatever that
  provider would do.
\<close>

theorem C2_zero_hits_short_circuit:
  assumes "retrieved e w message queryVector searchResponse []"
  shows "fst (semantic_POST e w) = noDocumentsResponse
         \<and> status (fst (semantic_POST e w)) = 200
         \<and> map_of (body (fst (semantic_POST e w))) ''docs_retrieved'' = Some (ONumber 0)
         \<and> (case map_of (body (fst (semantic_POST e w))) ''answer'' of
               Some (OString a) \<Rightarrow> includesStr a ''No relevant documents found''
             | _ \<Rightarrow> False)
         \<and> \<not> list_ex isChatCall (snd (semantic_POST e w))
         \<and> semantic_POST e (w\<lparr>chat_completions_create := g\<rparr>) = semantic_POST e w"
proof -
  have a: "semantic_POST e w = (noDocumentsResponse, retrievalCalls e w message queryVector)"
    using assms by (rule semantic_POST_no_hits)
  have "retrieved e (w\<lparr>chat_completions_create := g\<rparr>) message queryVector searchResponse []"
    using assms by (simp add: retrieved_provider_update)
  then have b: "semantic_POST e (w\<lparr>chat_completions_create := g\<rparr>)
                = (noDocumentsResponse, retrievalCalls e w message queryVector)"
    by (simp add: semantic_POST_no_hits retrievalCalls_provider_update)
  have c: "includesStr ''No relevant documents found for your question.'' ''No relevant documents found''"
    by code_simp
  show ?thesis
    using c by (simp add: a b no_chat_call_in_retrieval noDocumentsResponse_def)
qed

theorem C2_zero_hits_short_circuit_witness:
  "retrieved semantic_env run_no_hits question queryVector0 (reply 200 (Some [])) []
   \<and> fst (semantic_POST semantic_env run_no_hits) = noDocumentsResponse
   \<and> \<not> list_ex isChatCall (snd (semantic_POST semantic_env run_no_hits))"
proof -
  have r: "retrieved semantic_env run_no_hits question queryVector0 (reply 200 (Some [])) []"
    by code_simp
  show ?thesis
    using C2_zero_hits_short_circuit [OF r] r by simp
qed

lemma includesStr_set: "includesStr s t \<Longrightarrow> set t \<subseteq> set s"
proof (induction s)
  case Nil
  then show ?case by simp
next
  case (Cons a s)
  then consider "prefix t (a # s)" | "includesStr s t" by auto
  then show ?case
  proof cases
    case 1
    then show ?thesis by (rule set_mono_prefix)
  next
    case 2
    then have "set t \<subseteq> set s" by (rule Cons.IH)
    then show ?thesis by auto
  qed
qed

lemma digit_in_digits: "d < 10 \<Longrightarrow> digit d \<in> set ''0123456789''"
  unfolding digit_def by (rule nth_mem) simp

lemma decimal_digits: "decimal n \<noteq> [] \<and> set (decimal n) \<subseteq> set ''0123456789''"
proof (induction n rule: decimal.induct)
  case (1 n)
  show ?case
  proof (cases "n < 10")
    case True
    then have "decimal n = [digit n]" by (simp add: decimal.simps)
    with True show ?thesis
      using digit_in_digits [of n] by simp
  next
    case False
    then have eq: "decimal n = decimal (n div 10) @ [digit (n mod 10)]"
      by (simp add: decimal.simps)
    have "n mod 10 < 10" by simp
    then have "digit (n mod 10) \<in> set ''0123456789''" by (rule digit_in_digits)
    with False "1.IH" show ?thesis
      unfolding eq by simp
  qed
qed

lemma no_digit_in_search_failure:
  "c \<in> set ''0123456789'' \<Longrightarrow> c \<notin> set ''Failed to search OpenSearch''"
  by auto

lemma no_status_in_search_failure: "\<not> includesStr ''Failed to search OpenSearch'' (decimal n)"
proof
  assume "includesStr ''Failed to search OpenSearch'' (decimal n)"
  then have sub: "set (decimal n) \<subseteq> set ''Failed to search OpenSearch''" by (rule includesStr_set)
  obtain c where c: "c \<in> set (decimal n)" and d: "c \<in> set ''0123456789''"
    using decimal_digits [of n] by (cases "decimal n") auto
  from c sub have "c \<in> set ''Failed to search OpenSearch''" by blast
  with no_digit_in_search_failure [OF d] show False by blast
qed

text \<open>
  Claim C5, as the code has it. When the index replies with a status outside 200..299:
  if the body of the reply can be read, the response has status 502 and the fixed
  message \<open>Failed to search OpenSearch\<close>, whatever the status and the body of the reply;
  the message does not contain the status, and the response differs from the response
  to an index that cannot be reached. If reading the body throws, the response is the
  response 500 of the outer \<open>catch\<close>, with the message of the error.
\<close>

theorem C5_search_failure_fixed_message:
  assumes "searched e w message queryVector searchResponse"
    and "\<not> ok (search_status searchResponse)"
  shows "(\<forall>errorText. search_text searchResponse = Inr errorText \<longrightarrow>
            fst (semantic_POST e w) = semanticError 502 ''Failed to search OpenSearch''
            \<and> status (fst (semantic_POST e w)) = 502
            \<and> \<not> includesStr ''Failed to search OpenSearch'' (decimal (search_status searchResponse))
            \<and> fst (semantic_POST e w) \<noteq> unreachableResponse e)
         \<and> (\<forall>ex. search_text searchResponse = Inl ex \<longrightarrow>
              fst (semantic_POST e w) = semanticError 500 (errorMessage ex))"
  using assms no_status_in_search_failure [of "search_status searchResponse"]
  by (simp add: semantic_POST_def semantic_try_searched afterSearch_def semanticError_def
        unreachableResponse_def)

theorem C5_search_failure_fixed_message_witness:
  "searched semantic_env run_status_404 question queryVector0 (reply 404 None)
   \<and> \<not> ok (search_status (reply 404 None))
   \<and> search_text (reply 404 None) = Inr ''{}''
   \<and> status (fst (semantic_POST semantic_env run_status_404)) = 502"
proof -
  have s: "searched semantic_env run_status_404 question queryVector0 (reply 404 None)"
    by code_simp
  have n: "\<not> ok (search_status (reply 404 None))" by code_simp
  have t: "search_text (reply 404 None) = Inr ''{}''" by code_simp
  show ?thesis
    using C5_search_failure_fixed_message [OF s n] s n t by blast
qed

text \<open>A reply with status 404: the message of the response does not contain 404.\<close>

theorem C5_raw_status_not_reported_counterexample:
  "searched semantic_env run_status_404 question queryVector0 (reply 404 None)
   \<and> \<not> ok 404
   \<and> fst (semantic_POST semantic_env run_status_404) = semanticError 502 ''Failed to search OpenSearch''
   \<and> \<not> includesStr ''Failed to search OpenSearch'' (decimal 404)"
  by code_simp

text \<open>
  Claim C6, as the code has it. After a retrieval with at least one document, a
  generation that returns no text (no choice, no message, or a null or empty content)
  gives the answer \<open>No response generated.\<close> in a response with all its fields; a
  generation provider that throws gives the response 500 of the outer \<open>catch\<close>, with
  the message of the error. The request is the one built from the string of the message.
\<close>

theorem C6_generation_failure_modes:
  assumes "retrieved e w message queryVector searchResponse hits" and "1 \<le> length hits"
  shows "(\<forall>questionText choices.
            jsToString (number_toString w) message = Inr questionText
            \<and> chat_completions_create w (chatRequest e questionText (buildContext hits)) = Inr choices
            \<and> generatedText choices = None \<longrightarrow>
            fst (semantic_POST e w) = semanticAnswer e w queryVector hits ''No response generated.'')
         \<and> (\<forall>questionText ex.
              jsToString (number_toString w) message = Inr questionText
              \<and> chat_completions_create w (chatRequest e questionText (buildContext hits)) = Inl ex \<longrightarrow>
              fst (semantic_POST e w) = semanticError 500 (errorMessage ex))"
proof -
  from assms(2) have "hits \<noteq> []" by auto
  with assms(1) show ?thesis
    by (simp add: semantic_POST_hits answerOf_def)
qed

theorem C6_generation_failure_modes_witness:
  "retrieved semantic_env run_empty_output question queryVector0 (reply 200 (Some [hit1])) [hit1]
   \<and> 1 \<le> length [hit1]
   \<and> jsToString (number_toString run_empty_output) question = Inr ''asdkjalksjd nonsense query''
   \<and> generatedText [\<lparr>choice_message = Some \<lparr>content = Some []\<rparr>\<rparr>] = None
   \<and> fst (semantic_POST semantic_env run_empty_output) =
       semanticAnswer semantic_env run_empty_output queryVector0 [hit1] ''No response generated.''"
proof -
  have r: "retrieved semantic_env run_empty_output question queryVector0 (reply 200 (Some [hit1])) [hit1]"
    by code_simp
  have l: "1 \<le> length [hit1]" by simp
  have q: "jsToString (number_toString run_empty_output) question = Inr ''asdkjalksjd nonsense query''"
    by (simp add: question_def)
  have g: "generatedText [\<lparr>choice_message = Some \<lparr>content = Some []\<rparr>\<rparr>] = None"
    by (simp add: generatedText_def)
  have c: "chat_completions_create run_empty_output
             (chatRequest semantic_env ''asdkjalksjd nonsense query'' (buildContext [hit1]))
           = Inr [\<lparr>choice_message = Some \<lparr>content = Some []\<rparr>\<rparr>]"
    by (simp add: run_empty_output_def simulated_semantic_def completion_text_def)
  show ?thesis
    using C6_generation_failure_modes [OF r l] r q g c by simp
qed

text \<open>One document retrieved and a generation provider that throws: the response is
  the error response 500, with no answer.\<close>

theorem C6_provider_error_aborts_counterexample:
  "retrieved semantic_env run_provider_error question queryVector0 (reply 200 (Some [hit1])) [hit1]
   \<and> fst (semantic_POST semantic_env run_provider_error) = semanticError 500 ''Rate limit exceeded''
   \<and> map_of (body (fst (semantic_POST semantic_env run_provider_error))) ''answer'' = None"
  by code_simp

section \<open>The direct route: the fields of a response\<close>

text \<open>The responses with status 200 are the response to zero hits and the responses
  with an answer to at least one hit.\<close>

lemma generate_shape:
  "fst (generate e w message queryVector hits) = Inr r \<Longrightarrow>
   \<exists>a. r = semanticAnswer e w queryVector hits a"
  by (auto simp: generate_def Let_def split: sum.splits)

lemma afterSearch_shape:
  assumes "fst (afterSearch e w message queryVector searchResponse) = Inr r" and "status r = 200"
  shows "r = noDocumentsResponse \<or> (\<exists>hits a. hits \<noteq> [] \<and> r = semanticAnswer e w queryVector hits a)"
proof (cases "ok (search_status searchResponse)")
  case False
  with assms show ?thesis
    by (auto simp: afterSearch_def semanticError_def split: sum.splits)
next
  case True
  show ?thesis
  proof (cases "search_json searchResponse")
    case (Inl ex)
    with True assms show ?thesis by (simp add: afterSearch_def)
  next
    case (Inr sd)
    show ?thesis
    proof (cases sd)
      case SearchNull
      with True Inr assms show ?thesis by (simp add: afterSearch_def)
    next
      case (SearchData found)
      define hits where "hits = (case found of None \<Rightarrow> [] | Some hs \<Rightarrow> hs)"
      show ?thesis
      proof (cases "hits = []")
        case True
        with \<open>ok (search_status searchResponse)\<close> Inr SearchData assms show ?thesis
          by (simp add: afterSearch_def hits_def)
      next
        case False
        with \<open>ok (search_status searchResponse)\<close> Inr SearchData assms
        have "fst (generate e w message queryVector hits) = Inr r"
          by (simp add: afterSearch_def hits_def)
        then show ?thesis
          using False generate_shape by blast
      qed
    qed
  qed
qed

lemma search_shape:
  assumes "fst (search e w message queryVector) = Inr r" and "status r = 200"
  shows "r = noDocumentsResponse \<or> (\<exists>hits a. hits \<noteq> [] \<and> r = semanticAnswer e w queryVector hits a)"
proof (cases "search_fetch w (searchRequest e w queryVector)")
  case (Inl ex)
  with assms show ?thesis
    by (auto simp: search_def unreachableResponse_def semanticError_def)
next
  case (Inr searchResponse)
  with assms have "fst (afterSearch e w message queryVector searchResponse) = Inr r"
    by (simp add: search_def split: prod.splits)
  then show ?thesis by (rule afterSearch_shape [OF _ assms(2)])
qed

lemma embed_shape:
  assumes "fst (embed e w message) = Inr r" and "status r = 200"
  shows "r = noDocumentsResponse \<or> (\<exists>qv hits a. hits \<noteq> [] \<and> r = semanticAnswer e w qv hits a)"
proof (cases "embeddings_create w (OPENAI_EMBEDDING_MODEL e) message")
  case (Inl ex)
  with assms show ?thesis by (simp add: embed_def)
next
  case (Inr vectors)
  show ?thesis
  proof (cases vectors)
    case Nil
    with Inr assms show ?thesis by (simp add: embed_def)
  next
    case (Cons qv others)
    with Inr assms have "fst (search e w message qv) = Inr r"
      by (simp add: embed_def split: prod.splits)
    with assms(2) show ?thesis
      using search_shape by blast
  qed
qed

lemma semantic_try_shape:
  assumes "fst (semantic_try e w) = Inr r" and "status r = 200"
  shows "r = noDocumentsResponse \<or> (\<exists>qv hits a. hits \<noteq> [] \<and> r = semanticAnswer e w qv hits a)"
proof -
  from assms obtain message where "fst (embed e w message) = Inr r"
    by (auto simp: semantic_try_def semanticError_def split: sum.splits option.splits if_splits)
  then show ?thesis by (rule embed_shape [OF _ assms(2)])
qed

lemma semantic_POST_shape:
  assumes "status (fst (semantic_POST e w)) = 200"
  shows "fst (semantic_POST e w) = noDocumentsResponse
         \<or> (\<exists>qv hits a. hits \<noteq> [] \<and> fst (semantic_POST e w) = semanticAnswer e w qv hits a)"
proof (cases "semantic_try e w")
  case (Pair res calls)
  show ?thesis
  proof (cases res)
    case (Inl ex)
    with Pair assms show ?thesis by (simp add: semantic_POST_def semanticError_def)
  next
    case (Inr r)
    with Pair assms have "fst (semantic_try e w) = Inr r" and "status r = 200"
      by (simp_all add: semantic_POST_def)
    then have "r = noDocumentsResponse
               \<or> (\<exists>qv hits a. hits \<noteq> [] \<and> r = semanticAnswer e w qv hits a)"
      by (rule semantic_try_shape)
    with Pair Inr show ?thesis by (simp add: semantic_POST_def)
  qed
qed

lemma retrievedDocs_documents: "list_all isDocument (retrievedDocs hits)"
  by (auto simp: retrievedDocs_def list_all_iff isDocument_def retrievedDoc_def isInteger_def
        isString_def)

lemma semanticAnswer_fields:
  "hits \<noteq> [] \<Longrightarrow>
   hasAnswerFields (body (semanticAnswer e w qv hits a))
   \<and> hasDocumentFields (body (semanticAnswer e w qv hits a))
   \<and> map_of (body (semanticAnswer e w qv hits a)) ''docs_retrieved'' \<noteq> Some (ONumber 0)"
  by (simp add: semanticAnswer_def hasAnswerFields_def hasDocumentFields_def isString_def
        isInteger_def isDocumentArray_def isObject_def searchInfo_def retrievedDocs_documents)

text \<open>
  Claim C7, as the code has it. Every response with status 200 has \<open>answer\<close> (a string),
  \<open>search_type\<close> equal to \<open>semantic\<close> and \<open>docs_retrieved\<close> (an integer). When
  \<open>docs_retrieved\<close> is 0 these three are all its fields; otherwise it has
  \<open>retrieved_docs\<close> (an array of objects with \<open>rank\<close>, \<open>score\<close>, \<open>text\<close> and
  \<open>file_path\<close>) and \<open>search_info\<close> (an object) as well.
\<close>

theorem C7_fields_of_success_response:
  assumes "status (fst (semantic_POST e w)) = 200"
  shows "hasAnswerFields (body (fst (semantic_POST e w)))
         \<and> (map_of (body (fst (semantic_POST e w))) ''docs_retrieved'' = Some (ONumber 0) \<longrightarrow>
              map fst (body (fst (semantic_POST e w))) = [''answer'', ''search_type'', ''docs_retrieved''])
         \<and> (map_of (body (fst (semantic_POST e w))) ''docs_retrieved'' \<noteq> Some (ONumber 0) \<longrightarrow>
              hasDocumentFields (body (fst (semantic_POST e w))))"
proof -
  from semantic_POST_shape [OF assms]
  consider "fst (semantic_POST e w) = noDocumentsResponse"
    | qv hits a where "hits \<noteq> []" and "fst (semantic_POST e w) = semanticAnswer e w qv hits a"
    by blast
  then show ?thesis
  proof cases
    case 1
    then show ?thesis
      by (simp add: noDocumentsResponse_def hasAnswerFields_def isString_def isInteger_def)
  next
    case 2
    then show ?thesis
      using semanticAnswer_fields [of hits e w qv a] by simp
  qed
qed

theorem C7_fields_of_success_response_witness:
  "status (fst (semantic_POST semantic_env run_hits)) = 200
   \<and> map_of (body (fst (semantic_POST semantic_env run_hits))) ''docs_retrieved'' = Some (ONumber 2)
   \<and> hasAnswerFields (body (fst (semantic_POST semantic_env run_hits)))
   \<and> hasDocumentFields (body (fst (semantic_POST semantic_env run_hits)))"
proof -
  have s: "status (fst (semantic_POST semantic_env run_hits)) = 200"
    by code_simp
  have d: "map_of (body (fst (semantic_POST semantic_env run_hits))) ''docs_retrieved'' = Some (ONumber 2)"
    by code_simp
  show ?thesis
    using C7_fields_of_success_response [OF s] s d by simp
qed

text \<open>Zero hits: a response with status 200 that has neither \<open>retrieved_docs\<close> nor
  \<open>search_info\<close>.\<close>

theorem C7_zero_hits_body_counterexample:
  "status (fst (semantic_POST semantic_env run_no_hits)) = 200
   \<and> map_of (body (fst (semantic_POST semantic_env run_no_hits))) ''retrieved_docs'' = None
   \<and> map_of (body (fst (semantic_POST semantic_env run_no_hits))) ''search_info'' = None"
  by code_simp

end
